theory Spec2Isabelle
  imports Complex_Main "HOL-Library.Word"
begin

section \<open>The interactive visualizer notebook\<close>

text \<open>
  A shallow embedding of \<^verbatim>\<open>examples/tutorial/interactive_visualizer.ipynb\<close>.
  Python exceptions are values of \<open>pyerr\<close>; a computation that may raise returns
  \<open>pyerr + 'a\<close> with \<open>Inl\<close> for the exception. Tensors of floats are lists of reals:
  float32 arithmetic is idealised, NaN and infinities are not represented, and a tensor
  is a value, so two tensors never share storage. The mesh is
  batched with batch size 1 (\<^verbatim>\<open>mesh.to_batched()\<close>, and \<^verbatim>\<open>base_render\<close> assumes
  \<^verbatim>\<open>batch_size=1\<close>); the model keeps the single batch element of every tensor and
  drops the leading dimension of size 1.
\<close>

subsection \<open>Exceptions\<close>

datatype pyerr =
    KeyError string
  | IndexError
  | RuntimeError
  | LibraryError nat

definition bindE :: "pyerr + 'a \<Rightarrow> ('a \<Rightarrow> pyerr + 'b) \<Rightarrow> pyerr + 'b" where
  "bindE m f = (case m of Inl e \<Rightarrow> Inl e | Inr x \<Rightarrow> f x)"

subsection \<open>The mesh and its preprocessing\<close>

text \<open>
  The fields of the \<^verbatim>\<open>SurfaceMesh\<close> the notebook prints. \<open>'t\<close> is the type of the
  tensors that only library code looks into (vertices, normals). The uv coordinates
  are rows of two floats; \<^verbatim>\<open>faces\<close>, \<^verbatim>\<open>face_normals_idx\<close> and \<^verbatim>\<open>face_uvs_idx\<close> hold one
  row of int64 indices per face; \<^verbatim>\<open>material_assignments\<close> holds one material index per face.
  An attribute the mesh does not have (\<^verbatim>\<open>has_attribute\<close>) is \<open>None\<close>.
\<close>

record 't mesh =
  vertices :: 't
  faces :: "int list list"
  normals :: "'t option"
  face_normals_idx :: "int list list option"
  uvs :: "(real \<times> real) list"
  face_uvs_idx :: "int list list"
  material_assignments :: "int list"

text \<open>
  \<^verbatim>\<open>torch.nn.functional.pad(mesh.uvs, (0, 0, 0, 1))\<close>: nothing is added to the last
  dimension, one row of zeros is appended to the dimension before it.
\<close>

definition pad_uvs :: "(real \<times> real) list \<Rightarrow> (real \<times> real) list" where
  "pad_uvs us = us @ [(0, 0)]"

text \<open>\<^verbatim>\<open>t[t == a] = b\<close> on a two-dimensional integer tensor.\<close>

definition assign_where_eq :: "int list list \<Rightarrow> int \<Rightarrow> int \<Rightarrow> int list list" where
  "assign_where_eq t a b = map (map (\<lambda>i. if i = a then b else i)) t"

text \<open>
  \<^verbatim>\<open>
  mesh.uvs = torch.nn.functional.pad(mesh.uvs, (0, 0, 0, 1))
  mesh.face_uvs_idx[mesh.face_uvs_idx == -1] = mesh.uvs.shape[1] - 1
  \<close>
\<close>

definition pad_and_remap :: "'t mesh \<Rightarrow> 't mesh" where
  "pad_and_remap m =
     (let m1 = m\<lparr>uvs := pad_uvs (uvs m)\<rparr>
      in m1\<lparr>face_uvs_idx :=
              assign_where_eq (face_uvs_idx m1) (- 1) (int (length (uvs m1)) - 1)\<rparr>)"

text \<open>The entries of an index tensor, and validity of an index into the uv rows.\<close>

definition entries :: "int list list \<Rightarrow> int set" where
  "entries t = set (concat t)"

definition valid_uv_index :: "'t mesh \<Rightarrow> int \<Rightarrow> bool" where
  "valid_uv_index m i \<longleftrightarrow> 0 \<le> i \<and> i < int (length (uvs m))"

subsection \<open>Cameras, module-level globals and render results\<close>

text \<open>
  The camera attributes the notebook reads directly. Pose and lens live in
  \<open>extrinsics\<close> and \<open>intrinsics\<close>; only the library's camera methods interpret them.
\<close>

record camera =
  height :: int
  width :: int
  x0 :: real
  y0 :: real
  extrinsics :: "real list"
  intrinsics :: "real list"

text \<open>
  The module-level variables the callbacks read and write: the mesh and its material
  maps, the four spherical-gaussian parameters (tensors of shape (1,), (1,), (1, 3) and
  (1,)) and the flag \<^verbatim>\<open>apply_specular\<close>.
\<close>

record 't globals =
  mesh :: "'t mesh"
  diffuse_maps :: "'t list"
  specular_maps :: "'t list"
  azimuth :: "real list"
  elevation :: "real list"
  amplitude :: "real list list"
  sharpness :: "real list"
  apply_specular :: bool

type_synonym 'a grid = "'a list list"

type_synonym rgb8 = "8 word \<times> 8 word \<times> 8 word"

text \<open>The dictionary \<^verbatim>\<open>{'img': ..., 'face_idx': ...}\<close> returned by \<^verbatim>\<open>base_render\<close>.\<close>

record render_result =
  img :: "rgb8 grid"
  face_idx :: "int grid"

subsection \<open>Tensor operations\<close>

text \<open>
  The torch operations \<^verbatim>\<open>base_render\<close> applies to image-space tensors, on grids: a grid
  is the list of the rows of a tensor of shape (height, width, ...). An operation that
  torch rejects for the shapes at hand raises. Broadcasting between two image-space
  tensors of different height or width is not modelled: such a pair raises.
\<close>

type_synonym vec3 = "real \<times> real \<times> real"

text \<open>A pixel of the rasterizer's output: \<open>(u, v, z/w, triangle_id)\<close>, the last one zero
  where no triangle covers the pixel.\<close>

type_synonym rast_px = "real \<times> real \<times> real \<times> real"

fun mapE :: "('a \<Rightarrow> pyerr + 'b) \<Rightarrow> 'a list \<Rightarrow> pyerr + 'b list" where
  "mapE f [] = Inr []"
| "mapE f (x # xs) = bindE (f x) (\<lambda>y. bindE (mapE f xs) (\<lambda>ys. Inr (y # ys)))"

text \<open>\<^verbatim>\<open>t[i]\<close> for one entry \<open>i\<close> of an index tensor: a negative index counts from the end.\<close>

definition index :: "'a list \<Rightarrow> int \<Rightarrow> pyerr + 'a" where
  "index xs i =
     (if 0 \<le> i \<and> i < int (length xs) then Inr (xs ! nat i)
      else if i < 0 \<and> - int (length xs) \<le> i then Inr (xs ! nat (int (length xs) + i))
      else Inl IndexError)"

definition getitem_nat :: "'a list \<Rightarrow> nat \<Rightarrow> pyerr + 'a" where
  "getitem_nat xs i = (if i < length xs then Inr (xs ! i) else Inl IndexError)"

definition same_shape :: "'a grid \<Rightarrow> 'b grid \<Rightarrow> bool" where
  "same_shape a b \<longleftrightarrow> map length a = map length b"

text \<open>An elementwise operation on two grids.\<close>

definition zip_grid :: "('a \<Rightarrow> 'b \<Rightarrow> 'c) \<Rightarrow> 'a grid \<Rightarrow> 'b grid \<Rightarrow> pyerr + 'c grid" where
  "zip_grid f a b =
     (if same_shape a b then Inr (map2 (map2 f) a b) else Inl RuntimeError)"

text \<open>\<^verbatim>\<open>torch.zeros((1, height, width, 3))\<close>; a negative dimension raises.\<close>

definition zeros :: "int \<Rightarrow> int \<Rightarrow> pyerr + vec3 grid" where
  "zeros h w =
     (if h < 0 \<or> w < 0 then Inl RuntimeError
      else Inr (replicate (nat h) (replicate (nat w) (0, 0, 0))))"

text \<open>\<^verbatim>\<open>x[msk]\<close> with a boolean tensor: the selected elements in row-major order.\<close>

definition gather :: "'a grid \<Rightarrow> bool grid \<Rightarrow> pyerr + 'a list" where
  "gather x msk =
     (if same_shape x msk
      then Inr (map fst (filter snd (zip (concat x) (concat msk))))
      else Inl IndexError)"

text \<open>The values assigned through a boolean index are broadcast when there is one row.\<close>

definition broadcast_rows :: "nat \<Rightarrow> 'a list \<Rightarrow> pyerr + 'a list" where
  "broadcast_rows n v =
     (if length v = n then Inr v
      else if length v = 1 then Inr (replicate n (hd v))
      else Inl RuntimeError)"

fun put :: "'a list \<Rightarrow> bool list \<Rightarrow> 'a list \<Rightarrow> 'a list" where
  "put (x # xs) (True # ms) (v # vs) = v # put xs ms vs"
| "put (x # xs) (False # ms) vs = x # put xs ms vs"
| "put xs ms vs = xs"

fun put_rows :: "'a grid \<Rightarrow> bool grid \<Rightarrow> 'a list \<Rightarrow> 'a grid" where
  "put_rows (r # rs) (m # ms) vs =
     put r m (take (length (filter id m)) vs) # put_rows rs ms (drop (length (filter id m)) vs)"
| "put_rows rs ms vs = rs"

text \<open>\<^verbatim>\<open>x[msk] = v\<close>: the selected elements are overwritten in row-major order, the
  others stay.\<close>

definition scatter :: "'a grid \<Rightarrow> bool grid \<Rightarrow> 'a list \<Rightarrow> pyerr + 'a grid" where
  "scatter x msk v =
     (if same_shape x msk
      then bindE (broadcast_rows (length (filter id (concat msk))) v)
             (\<lambda>v'. Inr (put_rows x msk v'))
      else Inl IndexError)"

definition add3 :: "vec3 \<Rightarrow> vec3 \<Rightarrow> vec3" where
  "add3 a b = (case (a, b) of ((a1, a2, a3), (b1, b2, b3)) \<Rightarrow> (a1 + b1, a2 + b2, a3 + b3))"

text \<open>\<^verbatim>\<open>x[msk] += v\<close>.\<close>

definition scatter_add :: "vec3 grid \<Rightarrow> bool grid \<Rightarrow> vec3 list \<Rightarrow> pyerr + vec3 grid" where
  "scatter_add x msk v =
     bindE (gather x msk) (\<lambda>cur.
     bindE (broadcast_rows (length cur) v) (\<lambda>v'.
     scatter x msk (map2 add3 cur v')))"

text \<open>\<^verbatim>\<open>torch.arange(n)\<close>, \<^verbatim>\<open>torch.meshgrid(ys, xs, indexing='ij')\<close>,
  \<^verbatim>\<open>t.reshape(1, h, w, 3)\<close> of a flat list of rays and \<^verbatim>\<open>torch.stack([a, b, c], dim=-1)\<close>.\<close>

definition arange :: "int \<Rightarrow> pyerr + real list" where
  "arange n = (if n < 0 then Inl RuntimeError else Inr (map real [0..<nat n]))"

definition meshgrid_ij :: "'a list \<Rightarrow> 'a list \<Rightarrow> 'a grid \<times> 'a grid" where
  "meshgrid_ij ys xs = (map (\<lambda>y. map (\<lambda>x. y) xs) ys, map (\<lambda>y. map (\<lambda>x. x) xs) ys)"

definition reshape_hw :: "int \<Rightarrow> int \<Rightarrow> 'a list \<Rightarrow> pyerr + 'a grid" where
  "reshape_hw h w xs =
     (if 0 \<le> h \<and> 0 \<le> w \<and> int (length xs) = h * w
      then Inr (map (\<lambda>y. take (nat w) (drop (y * nat w) xs)) [0..<nat h])
      else Inl RuntimeError)"

definition stack3 :: "real list \<Rightarrow> real list \<Rightarrow> real list \<Rightarrow> pyerr + vec3 list" where
  "stack3 a b c =
     (if length a = length b \<and> length b = length c
      then Inr (zip a (zip b c)) else Inl RuntimeError)"

text \<open>\<^verbatim>\<open>d / torch.linalg.norm(d, dim=-1, keepdim=True)\<close> for one ray.\<close>

definition normalize :: "vec3 \<Rightarrow> vec3" where
  "normalize d = (case d of (x, y, z) \<Rightarrow>
     (x / sqrt (x * x + y * y + z * z), y / sqrt (x * x + y * y + z * z),
      z / sqrt (x * x + y * y + z * z)))"

text \<open>Conversions: a float to an integer type truncates towards zero (\<^verbatim>\<open>.long()\<close>,
  Python's \<^verbatim>\<open>int\<close>); \<^verbatim>\<open>.int()\<close> wraps an int64 into 32 bits;
  \<^verbatim>\<open>.to(torch.uint8)\<close> truncates and keeps the low 8 bits.\<close>

definition to_long :: "real \<Rightarrow> int" where
  "to_long x = (if 0 \<le> x then \<lfloor>x\<rfloor> else \<lceil>x\<rceil>)"

definition to_int32 :: "int \<Rightarrow> int" where
  "to_int32 i = sint (word_of_int i :: 32 word)"

definition to_uint8 :: "real \<Rightarrow> 8 word" where
  "to_uint8 x = word_of_int (to_long x)"

text \<open>\<^verbatim>\<open>x % 1.\<close> and \<^verbatim>\<open>torch.clamp(x, 0., 1.)\<close>.\<close>

definition fmod1 :: "real \<Rightarrow> real" where
  "fmod1 x = x - real_of_int \<lfloor>x\<rfloor>"

definition clamp01 :: "real \<Rightarrow> real" where
  "clamp01 x = min (max x 0) 1"

text \<open>\<^verbatim>\<open>rast0[:, :, :, -1:] != 0\<close> for one pixel: whether a triangle covers it.\<close>

definition coverage :: "rast_px \<Rightarrow> bool" where
  "coverage p = (case p of (u, v, zw, tri) \<Rightarrow> tri \<noteq> 0)"

text \<open>\<^verbatim>\<open>torch.arange(n * 3, dtype=torch.int).reshape(-1, 3)\<close>.\<close>

definition arange3 :: "nat \<Rightarrow> int list list" where
  "arange3 n = map (\<lambda>f. [int (3 * f), int (3 * f + 1), int (3 * f + 2)]) [0..<n]"

text \<open>Python's \<^verbatim>\<open>int(a / b)\<close> on integers: true division, then truncation towards zero.
  The divisor is the literal 4 wherever the notebook uses it.\<close>

definition int_truediv :: "int \<Rightarrow> int \<Rightarrow> int" where
  "int_truediv a b = to_long (real_of_int a / real_of_int b)"

subsection \<open>The camera object and the libraries\<close>

text \<open>
  The camera is a Python object handed by reference to library methods, which could
  change it. A computation that has the camera at hand takes the camera and returns its
  result, or the exception it raised, together with the camera as it is afterwards.
\<close>

type_synonym 'a cam_io = "camera \<Rightarrow> (pyerr + 'a) \<times> camera"

definition returnC :: "'a \<Rightarrow> 'a cam_io" where
  "returnC x c = (Inr x, c)"

definition bindC :: "'a cam_io \<Rightarrow> ('a \<Rightarrow> 'b cam_io) \<Rightarrow> 'b cam_io" where
  "bindC m f c = (case m c of (Inl e, c1) \<Rightarrow> (Inl e, c1) | (Inr x, c1) \<Rightarrow> f x c1)"

text \<open>A computation that does not get the camera, and the read of a camera attribute.\<close>

definition liftE :: "pyerr + 'a \<Rightarrow> 'a cam_io" where
  "liftE r c = (r, c)"

definition readC :: "(camera \<Rightarrow> 'a) \<Rightarrow> 'a cam_io" where
  "readC f c = (Inr (f c), c)"

datatype CameraFOV = HORIZONTAL | VERTICAL

text \<open>
  The library functions \<^verbatim>\<open>base_render\<close> and \<^verbatim>\<open>generate_pinhole_rays_dir\<close> call, as
  parameters; none of them is defined in the notebook, and each may raise.
  \<^item> Methods of the camera: \<^verbatim>\<open>camera.extrinsics.transform\<close>,
    \<^verbatim>\<open>camera.projection_matrix\<close>, \<^verbatim>\<open>camera.tan_half_fov\<close>,
    \<^verbatim>\<open>camera.extrinsics.inv_transform_rays\<close>.
  \<^item> Kaolin: \<^verbatim>\<open>kal.ops.mesh.index_vertices_by_faces\<close>,
    \<^verbatim>\<open>kal.ops.mesh.face_normals(..., unit=True)\<close>, \<^verbatim>\<open>kal.render.camera.up_to_homogeneous\<close>,
    the computed attribute \<^verbatim>\<open>mesh.face_normals\<close> (reshaped to one normal per face corner),
    \<^verbatim>\<open>kal.ops.coords.spherical2cartesian\<close>, \<^verbatim>\<open>kal.render.lighting.sg_diffuse_inner_product\<close>
    and \<^verbatim>\<open>kal.render.lighting.sg_warp_specular_term\<close>.
  \<^item> Torch: the matrix product \<^verbatim>\<open>proj @ homogeneous_vecs\<close> on the tensors the model does
    not look into.
  \<^item> Nvdiffrast: \<^verbatim>\<open>rasterize\<close> (with the GL context and the resolution
    \<^verbatim>\<open>(height, width)\<close>), \<^verbatim>\<open>interpolate\<close> (once for uv coordinates, once for normals) and
    \<^verbatim>\<open>texture\<close> with linear filtering.
\<close>

record 't ext =
  extrinsics_transform :: "'t \<Rightarrow> 't cam_io"
  projection_matrix :: "'t cam_io"
  tan_half_fov :: "CameraFOV \<Rightarrow> real cam_io"
  extrinsics_inv_transform_rays :: "vec3 list \<Rightarrow> vec3 list \<Rightarrow> (vec3 list \<times> vec3 list) cam_io"
  index_vertices_by_faces :: "'t \<Rightarrow> int list list \<Rightarrow> pyerr + 't"
  face_normals :: "'t \<Rightarrow> pyerr + vec3 list"
  up_to_homogeneous :: "'t \<Rightarrow> pyerr + 't"
  matmul :: "'t \<Rightarrow> 't \<Rightarrow> pyerr + 't"
  mesh_face_normals :: "'t mesh \<Rightarrow> pyerr + 't"
  spherical2cartesian :: "real list \<Rightarrow> real list \<Rightarrow> pyerr + real list \<times> real list \<times> real list"
  sg_diffuse_inner_product ::
    "real list list \<Rightarrow> vec3 list \<Rightarrow> real list \<Rightarrow> vec3 list \<Rightarrow> vec3 list \<Rightarrow> pyerr + vec3 list"
  sg_warp_specular_term ::
    "real list list \<Rightarrow> vec3 list \<Rightarrow> real list \<Rightarrow> vec3 list \<Rightarrow> real list \<Rightarrow> vec3 list \<Rightarrow>
     vec3 list \<Rightarrow> pyerr + vec3 list"
  rasterize :: "'t \<Rightarrow> int list list \<Rightarrow> int \<Rightarrow> int \<Rightarrow> pyerr + rast_px grid"
  interpolate_uv ::
    "(real \<times> real) list \<Rightarrow> rast_px grid \<Rightarrow> int list list \<Rightarrow> pyerr + (real \<times> real) grid"
  interpolate_normals :: "'t \<Rightarrow> rast_px grid \<Rightarrow> int list list \<Rightarrow> pyerr + vec3 grid"
  texture :: "'t \<Rightarrow> (real \<times> real) list \<Rightarrow> pyerr + vec3 list"

subsection \<open>The render functions\<close>

text \<open>
  \<^verbatim>\<open>
  def generate_pinhole_rays_dir(camera, height, width, device='cuda'):
      pixel_y, pixel_x = torch.meshgrid(
          torch.arange(height, device=device),
          torch.arange(width, device=device),
          indexing='ij'
      )
      pixel_x = pixel_x + 0.5  # scale and add bias to pixel center
      pixel_y = pixel_y + 0.5  # scale and add bias to pixel center
      # Account for principal point (offsets from the center)
      pixel_x = pixel_x - camera.x0
      pixel_y = pixel_y + camera.y0
      # Convert to NDC
      pixel_x = 2 * (pixel_x / width) - 1.0
      pixel_y = 2 * (pixel_y / height) - 1.0
      ray_dir = torch.stack((pixel_x * camera.tan_half_fov(CameraFOV.HORIZONTAL),
                             -pixel_y * camera.tan_half_fov(CameraFOV.VERTICAL),
                             -torch.ones_like(pixel_x)), dim=-1)
      ray_dir = ray_dir.reshape(-1, 3)    # Flatten grid rays to 1D array
      ray_orig = torch.zeros_like(ray_dir)
      # Transform from camera to world coordinates
      ray_orig, ray_dir = camera.extrinsics.inv_transform_rays(ray_orig, ray_dir)
      ray_dir /= torch.linalg.norm(ray_dir, dim=-1, keepdim=True)
      return ray_dir[0].reshape(1, height, width, 3)
  \<close>
  The parameters \<^verbatim>\<open>camera\<close>, \<^verbatim>\<open>height\<close> and \<^verbatim>\<open>width\<close> are \<open>cam\<close>, \<open>h\<close> and \<open>w\<close>: the
  source's names are those of record fields here.
\<close>

definition generate_pinhole_rays_dir ::
  "'t ext \<Rightarrow> camera \<Rightarrow> int \<Rightarrow> int \<Rightarrow> (pyerr + vec3 grid) \<times> camera" where
  "generate_pinhole_rays_dir X cam h w =
     (bindC (liftE (arange h)) (\<lambda>ys.
      bindC (liftE (arange w)) (\<lambda>xs.
      let (pixel_y, pixel_x) = meshgrid_ij ys xs;
          pixel_x = map (map (\<lambda>p. p + 0.5)) pixel_x;
          pixel_y = map (map (\<lambda>p. p + 0.5)) pixel_y
      in
      bindC (readC x0) (\<lambda>cx.
      let pixel_x = map (map (\<lambda>p. p - cx)) pixel_x in
      bindC (readC y0) (\<lambda>cy.
      let pixel_y = map (map (\<lambda>p. p + cy)) pixel_y;
          pixel_x = map (map (\<lambda>p. 2 * (p / real_of_int w) - 1.0)) pixel_x;
          pixel_y = map (map (\<lambda>p. 2 * (p / real_of_int h) - 1.0)) pixel_y
      in
      bindC (tan_half_fov X HORIZONTAL) (\<lambda>tan_h.
      bindC (tan_half_fov X VERTICAL) (\<lambda>tan_v.
      bindC (liftE (zip_grid (\<lambda>px py. (px * tan_h, - py * tan_v, - 1)) pixel_x pixel_y)) (\<lambda>ray_dir.
      let ray_dir = concat ray_dir;
          ray_orig = map (\<lambda>d. (0, 0, 0)) ray_dir
      in
      bindC (extrinsics_inv_transform_rays X ray_orig ray_dir) (\<lambda>(ray_orig, ray_dir).
      let ray_dir = map normalize ray_dir
      in liftE (reshape_hw h w ray_dir)))))))))) cam"

text \<open>
  The loop of \<^verbatim>\<open>base_render\<close> over the materials:
  \<^verbatim>\<open>
  for i, material in enumerate(diffuse_maps):
      mask = im_material_idx == i
      mask_idx = torch.nonzero(mask, as_tuple=False)
      _texcoords = uv_map[mask]
      _texcoords[:, 1] = -_texcoords[:, 1]
      if _texcoords.shape[0] > 0:
          pixel_val = nvdiffrast.torch.texture(
              diffuse_maps[i].contiguous(),
              _texcoords.reshape(1, 1, -1, 2).contiguous(),
              filter_mode='linear'
          )
          albedo[mask] = pixel_val[0, 0]
          pixel_val = nvdiffrast.torch.texture(
              specular_maps[i].contiguous(),
              _texcoords.reshape(1, 1, -1, 2).contiguous(),
              filter_mode='linear'
          )
          spec_albedo[mask] = pixel_val[0, 0] #.permute(1, 0)
  \<close>
  \<open>i\<close> is the index of the material at the head of the list, which is
  \<^verbatim>\<open>diffuse_maps[i]\<close>. \<^verbatim>\<open>uv_map[mask]\<close> is a copy, so writing to it leaves
  \<^verbatim>\<open>uv_map\<close> as it is.
\<close>

fun material_loop ::
  "'t ext \<Rightarrow> 't list \<Rightarrow> (real \<times> real) grid \<Rightarrow> int grid \<Rightarrow> nat \<Rightarrow> 't list \<Rightarrow>
   vec3 grid \<times> vec3 grid \<Rightarrow> pyerr + vec3 grid \<times> vec3 grid" where
  "material_loop X specular uv_map im_material_idx i [] acc = Inr acc"
| "material_loop X specular uv_map im_material_idx i (material # rest) (albedo, spec_albedo) =
     (let msk = map (map (\<lambda>m. m = int i)) im_material_idx in
      bindE (gather uv_map msk) (\<lambda>texcoords.
      let texcoords = map (\<lambda>(u, v). (u, - v)) texcoords in
      bindE (if length texcoords > 0
             then bindE (texture X material texcoords) (\<lambda>pixel_val.
                  bindE (scatter albedo msk pixel_val) (\<lambda>albedo.
                  bindE (getitem_nat specular i) (\<lambda>specular_map.
                  bindE (texture X specular_map texcoords) (\<lambda>pixel_val.
                  bindE (scatter spec_albedo msk pixel_val) (\<lambda>spec_albedo.
                  Inr (albedo, spec_albedo))))))
             else Inr (albedo, spec_albedo))
        (\<lambda>acc. material_loop X specular uv_map im_material_idx (Suc i) rest acc)))"

text \<open>
  \<^verbatim>\<open>
  def base_render(mesh, camera, height, width):
      vertices_camera = camera.extrinsics.transform(mesh.vertices)
      face_vertices_camera = kal.ops.mesh.index_vertices_by_faces(
          vertices_camera, mesh.faces)
      face_normals_z = kal.ops.mesh.face_normals(
          face_vertices_camera, unit=True)[..., -1:].contiguous()
      proj = camera.projection_matrix()[None]
      homogeneous_vecs = kal.render.camera.up_to_homogeneous(
          vertices_camera)[..., None]
      vertices_clip = (proj @ homogeneous_vecs).squeeze(-1)
      rast = nvdiffrast.torch.rasterize(
          glctx, vertices_clip, mesh.faces.int(),
          (height, width), grad_db=False)
      # nvdiffrast rasteriztion output is y-up, we need to flip as our display is y-down
      rast0 = torch.flip(rast[0], dims=(1,))
      hard_mask = rast0[:, :, :, -1:] != 0
      face_idx = (rast0[..., -1].long() - 1).contiguous()
      uv_map = nvdiffrast.torch.interpolate(
          mesh.uvs, rast0, mesh.face_uvs_idx[0, ...].int())[0] % 1.
      if mesh.has_attribute('normals') and mesh.has_attribute('face_normals_idx'):
          im_world_normals = nvdiffrast.torch.interpolate(
              mesh.normals, rast0, mesh.face_normals_idx[0, ...].int())[0]
      else:
          im_world_normals = nvdiffrast.torch.interpolate(
              mesh.face_normals.reshape(len(mesh), -1, 3), rast0,
              torch.arange(mesh.faces.shape[0] * 3, device='cuda',
                           dtype=torch.int).reshape(-1, 3))[0]
      batch_idx = torch.arange(len(mesh), device='cuda', dtype=torch.long).reshape(
          len(mesh), 1, 1).expand(len(mesh), height, width)
      im_cam_normals = face_normals_z[batch_idx, face_idx] * (face_idx.unsqueeze(-1) != -1)
      im_world_normals = im_world_normals * torch.sign(im_cam_normals)
      albedo = torch.zeros((1, height, width, 3), dtype=torch.float, device='cuda')
      spec_albedo = torch.zeros((1, height, width, 3), dtype=torch.float, device='cuda')
      im_material_idx = mesh.material_assignments[0, ...][face_idx]
      im_material_idx[face_idx == -1] = -1
      for i, material in enumerate(diffuse_maps):
          ...
      img = torch.zeros((1, height, width, 3), dtype=torch.float, device='cuda')
      sg_x, sg_y, sg_z = kal.ops.coords.spherical2cartesian(azimuth, elevation)
      directions = torch.stack([sg_x, sg_z, sg_y], dim=-1)
      im_world_normals = im_world_normals[hard_mask.squeeze(-1)]
      diffuse_effect = kal.render.lighting.sg_diffuse_inner_product(
          amplitude, directions, sharpness,
          im_world_normals, albedo[hard_mask.squeeze(-1)])
      img[hard_mask.squeeze(-1)] = diffuse_effect
      global apply_specular
      if apply_specular:
          rays_d = generate_pinhole_rays_dir(camera, height, width)
          specular_effect = kal.render.lighting.sg_warp_specular_term(
              amplitude, directions, sharpness, im_world_normals,
              torch.full((im_world_normals.shape[0],), 0.5, device='cuda'),
              -rays_d[hard_mask.squeeze(-1)],
              spec_albedo[hard_mask.squeeze(-1)])
          img[hard_mask.squeeze(-1)] += specular_effect
      # 'img' is the displayed image, while the other value `face_idx` is only printed on query
      return {
          'img': (torch.clamp(img * hard_mask, 0., 1.)[0] * 255.).to(torch.uint8),
          'face_idx': face_idx[0]
      }
  \<close>
  \<open>g\<close> holds the module globals the function reads; the float image \<^verbatim>\<open>img\<close> is
  \<open>image\<close>, and \<^verbatim>\<open>mesh\<close>, \<^verbatim>\<open>camera\<close>, \<^verbatim>\<open>height\<close>, \<^verbatim>\<open>width\<close> are \<open>m\<close>, \<open>cam\<close>, \<open>h\<close>,
  \<open>w\<close>. \<^verbatim>\<open>torch.flip(rast[0], dims=(1,))\<close> reverses the order of the rows.
\<close>

definition base_render ::
  "'t ext \<Rightarrow> 't globals \<Rightarrow> 't mesh \<Rightarrow> camera \<Rightarrow> int \<Rightarrow> int \<Rightarrow> (pyerr + render_result) \<times> camera" where
  "base_render X g m cam h w =
     (bindC (extrinsics_transform X (vertices m)) (\<lambda>vertices_camera.
      bindC (liftE (index_vertices_by_faces X vertices_camera (faces m))) (\<lambda>face_vertices_camera.
      bindC (liftE (face_normals X face_vertices_camera)) (\<lambda>normals_camera.
      let face_normals_z = map (\<lambda>(x, y, z). z) normals_camera in
      bindC (projection_matrix X) (\<lambda>proj.
      bindC (liftE (up_to_homogeneous X vertices_camera)) (\<lambda>homogeneous_vecs.
      bindC (liftE (matmul X proj homogeneous_vecs)) (\<lambda>vertices_clip.
      bindC (liftE (rasterize X vertices_clip (map (map to_int32) (faces m)) h w)) (\<lambda>rast.
      let rast0 = rev rast;
          hard_mask = map (map coverage) rast0;
          face_idx = map (map (\<lambda>(u, v, zw, tri). to_long tri - 1)) rast0
      in
      bindC (liftE (interpolate_uv X (uvs m) rast0 (map (map to_int32) (face_uvs_idx m)))) (\<lambda>uv.
      let uv_map = map (map (\<lambda>(u, v). (fmod1 u, fmod1 v))) uv in
      bindC (liftE
        (case (normals m, face_normals_idx m) of
           (Some n, Some ni) \<Rightarrow> interpolate_normals X n rast0 (map (map to_int32) ni)
         | _ \<Rightarrow> bindE (mesh_face_normals X m) (\<lambda>fnm.
                   interpolate_normals X fnm rast0 (arange3 (length (faces m)))))) (\<lambda>im_world_normals.
      bindC (liftE (mapE (mapE (\<lambda>f. bindE (index face_normals_z f) (\<lambda>z.
                      Inr (z * of_bool (f \<noteq> - 1))))) face_idx)) (\<lambda>im_cam_normals.
      bindC (liftE (zip_grid (\<lambda>(x, y, z) s. (x * sgn s, y * sgn s, z * sgn s))
                      im_world_normals im_cam_normals)) (\<lambda>im_world_normals.
      bindC (liftE (zeros h w)) (\<lambda>albedo.
      bindC (liftE (zeros h w)) (\<lambda>spec_albedo.
      bindC (liftE (mapE (mapE (index (material_assignments m))) face_idx)) (\<lambda>im_material_idx.
      bindC (liftE (zip_grid (\<lambda>mi f. if f = - 1 then - 1 else mi) im_material_idx face_idx))
        (\<lambda>im_material_idx.
      bindC (liftE (material_loop X (specular_maps g) uv_map im_material_idx 0 (diffuse_maps g)
                      (albedo, spec_albedo))) (\<lambda>(albedo, spec_albedo).
      bindC (liftE (zeros h w)) (\<lambda>image.
      bindC (liftE (spherical2cartesian X (azimuth g) (elevation g))) (\<lambda>(sg_x, sg_y, sg_z).
      bindC (liftE (stack3 sg_x sg_z sg_y)) (\<lambda>directions.
      bindC (liftE (gather im_world_normals hard_mask)) (\<lambda>im_world_normals.
      bindC (liftE (gather albedo hard_mask)) (\<lambda>albedo_masked.
      bindC (liftE (sg_diffuse_inner_product X (amplitude g) directions (sharpness g)
                      im_world_normals albedo_masked)) (\<lambda>diffuse_effect.
      bindC (liftE (scatter image hard_mask diffuse_effect)) (\<lambda>image.
      bindC (if apply_specular g
             then bindC (\<lambda>c. generate_pinhole_rays_dir X c h w) (\<lambda>rays_d.
                  bindC (liftE (gather rays_d hard_mask)) (\<lambda>rays_masked.
                  bindC (liftE (gather spec_albedo hard_mask)) (\<lambda>spec_albedo_masked.
                  bindC (liftE (sg_warp_specular_term X (amplitude g) directions (sharpness g)
                                  im_world_normals
                                  (replicate (length im_world_normals) 0.5)
                                  (map (\<lambda>(x, y, z). (- x, - y, - z)) rays_masked)
                                  spec_albedo_masked)) (\<lambda>specular_effect.
                  liftE (scatter_add image hard_mask specular_effect)))))
             else returnC image) (\<lambda>image.
      bindC (liftE (zip_grid (\<lambda>(r, g, b) k. (r * of_bool k, g * of_bool k, b * of_bool k))
                      image hard_mask)) (\<lambda>masked.
      returnC
        \<lparr>img = map (map (\<lambda>(r, g, b).
                 (to_uint8 (clamp01 r * 255), to_uint8 (clamp01 g * 255),
                  to_uint8 (clamp01 b * 255)))) masked,
         face_idx = face_idx\<rparr>)))))))))))))))))))))))))) cam"

text \<open>
  \<^verbatim>\<open>
  def render(camera):
      return base_render(mesh, camera, camera.height, camera.width)

  def lowres_render(camera):
      return base_render(mesh, camera, int(camera.height / 4), int(camera.width / 4))
  \<close>
\<close>

definition render :: "'t ext \<Rightarrow> 't globals \<Rightarrow> camera \<Rightarrow> (pyerr + render_result) \<times> camera" where
  "render X g cam = base_render X g (mesh g) cam (height cam) (width cam)"

definition lowres_render :: "'t ext \<Rightarrow> 't globals \<Rightarrow> camera \<Rightarrow> (pyerr + render_result) \<times> camera" where
  "lowres_render X g cam =
     base_render X g (mesh g) cam (int_truediv (height cam) 4) (int_truediv (width cam) 4)"

subsection \<open>The visualizer\<close>

datatype resolution = Full | Fast

text \<open>
  Modelled from the spec: the class \<^verbatim>\<open>kal.visualize.IpyTurntableVisualizer\<close> is not
  part of the notebook. The record holds what the notebook passes to its constructor
  (the camera, the render callback, the fast render callback, the maximum frame rate),
  the display surface \<open>canvas\<close> with the last image written to it, and the output area
  \<open>out\<close> with the errors surfaced there. \<open>rendered\<close> is a log with one entry for every
  invocation of a render callback: the resolution asked for and the inputs the callback
  ran on (the module globals it reads and the camera).
\<close>

record 't visualizer =
  camera :: camera
  render_fn :: "'t globals \<Rightarrow> camera \<Rightarrow> pyerr + render_result"
  fast_render_fn :: "'t globals \<Rightarrow> camera \<Rightarrow> pyerr + render_result"
  max_fps :: nat
  canvas :: "rgb8 grid option"
  out :: "pyerr list"
  rendered :: "(resolution \<times> 't globals \<times> camera) list"

text \<open>The state of the notebook session: the module globals and the visualizer.\<close>

record 't notebook =
  globals :: "'t globals"
  visualizer :: "'t visualizer"

text \<open>
  Modelled from the spec: the Render Dispatcher, one render operation with the
  resolution as argument. It takes the current camera, invokes the render callback for
  the resolution (the fast callback for the reduced one) and writes the resulting image
  into the display surface. A failed render leaves the previously displayed image in
  place. An exception of the callback reaches the caller of the dispatcher: both
  callbacks of the notebook wrap their call of \<^verbatim>\<open>render_update\<close> in the output area to
  catch it.
\<close>

definition dispatch :: "resolution \<Rightarrow> 't notebook \<Rightarrow> (pyerr + unit) \<times> 't notebook" where
  "dispatch res s =
     (let v = visualizer s;
          f = (case res of Full \<Rightarrow> render_fn v | Fast \<Rightarrow> fast_render_fn v);
          v1 = v\<lparr>rendered := rendered v @ [(res, globals s, camera v)]\<rparr>
      in case f (globals s) (camera v) of
           Inl e \<Rightarrow> (Inl e, s\<lparr>visualizer := v1\<rparr>)
         | Inr r \<Rightarrow> (Inr (), s\<lparr>visualizer := v1\<lparr>canvas := Some (img r)\<rparr>\<rparr>))"

text \<open>
  Modelled from the spec: \<^verbatim>\<open>visualizer.render_update()\<close>, the request for one
  full-resolution render.
\<close>

definition render_update :: "'t notebook \<Rightarrow> (pyerr + unit) \<times> 't notebook" where
  "render_update s = dispatch Full s"

text \<open>
  \<^verbatim>\<open>with visualizer.out:\<close> (``This is for catching print and errors''). The body runs;
  an exception raised in it is shown in the output area and suppressed, and control
  continues after the \<^verbatim>\<open>with\<close> statement, where both callbacks of the notebook end:
  the result is \<open>None\<close>, Python's \<^verbatim>\<open>None\<close>. A \<^verbatim>\<open>return\<close> inside the body gives
  \<open>Some\<close> of the value returned. Whatever the body changed before it raised stays
  changed.
\<close>

definition with_out ::
  "('t notebook \<Rightarrow> (pyerr + 'a) \<times> 't notebook) \<Rightarrow> 't notebook \<Rightarrow> 'a option \<times> 't notebook" where
  "with_out body s =
     (case body s of
        (Inl e, s1) \<Rightarrow>
          (None, s1\<lparr>visualizer := (visualizer s1)\<lparr>out := out (visualizer s1) @ [e]\<rparr>\<rparr>)
      | (Inr a, s1) \<Rightarrow> (Some a, s1))"

subsection \<open>Events and the additional event handler\<close>

text \<open>An event is the dictionary the widget toolkit delivers; \<^verbatim>\<open>event[k]\<close> raises
  \<^verbatim>\<open>KeyError\<close> for a missing key.\<close>

datatype jsval = JStr string | JNum int | JBool bool

type_synonym event = "string \<rightharpoonup> jsval"

definition getitem :: "event \<Rightarrow> string \<Rightarrow> pyerr + jsval" where
  "getitem ev k = (case ev k of None \<Rightarrow> Inl (KeyError k) | Some v \<Rightarrow> Inr v)"

text \<open>
  \<^verbatim>\<open>
  def additional_event_handler(visualizer, event):
      with visualizer.out: # This is for catching print and errors
          if event['type'] == 'keydown' and event['key'] == ' ':
              global apply_specular
              apply_specular = not apply_specular
              visualizer.render_update()
              return False
          return True
  \<close>
  The \<^verbatim>\<open>and\<close> evaluates \<^verbatim>\<open>event['key']\<close> only when the type is \<^verbatim>\<open>'keydown'\<close>.
\<close>

definition additional_event_handler ::
  "'t notebook \<Rightarrow> event \<Rightarrow> bool option \<times> 't notebook" where
  "additional_event_handler s0 ev =
     with_out (\<lambda>s.
       case getitem ev ''type'' of
         Inl e \<Rightarrow> (Inl e, s)
       | Inr ty \<Rightarrow>
           if ty = JStr ''keydown'' then
             (case getitem ev ''key'' of
                Inl e \<Rightarrow> (Inl e, s)
              | Inr k \<Rightarrow>
                  if k = JStr '' '' then
                    (let s1 = s\<lparr>globals := (globals s)
                                 \<lparr>apply_specular := \<not> apply_specular (globals s)\<rparr>\<rparr>
                     in case render_update s1 of
                          (Inl e, s2) \<Rightarrow> (Inl e, s2)
                        | (Inr u, s2) \<Rightarrow> (Inr False, s2))
                  else (Inr True, s))
           else (Inr True, s)) s0"

text \<open>Python's truth value of the handler's result: \<^verbatim>\<open>False\<close> and \<^verbatim>\<open>None\<close> are falsy.\<close>

definition truthy :: "bool option \<Rightarrow> bool" where
  "truthy r \<longleftrightarrow> r = Some True"

text \<open>
  Modelled from the spec: the Event Router. On each event it first invokes the
  user-supplied additional handler, if there is one; if that returns a falsy result,
  default camera handling is skipped for the event; otherwise the default
  camera-control mapping \<open>ctl\<close> is applied to the camera and a frame is requested through
  the Frame Scheduler \<open>request_frame\<close>. The mapping and the scheduler are parameters.
\<close>

definition handle_event ::
  "(camera \<Rightarrow> event \<Rightarrow> camera) \<Rightarrow> ('t notebook \<Rightarrow> 't notebook) \<Rightarrow>
   ('t notebook \<Rightarrow> event \<Rightarrow> bool option \<times> 't notebook) option \<Rightarrow>
   't notebook \<Rightarrow> event \<Rightarrow> 't notebook" where
  "handle_event ctl request_frame handler s ev =
     (let (process_event, s1) =
            (case handler of
               None \<Rightarrow> (True, s)
             | Some h \<Rightarrow> (case h s ev of (r, s') \<Rightarrow> (truthy r, s')))
      in if process_event
         then request_frame
                (s1\<lparr>visualizer := (visualizer s1)
                       \<lparr>camera := ctl (camera (visualizer s1)) ev\<rparr>\<rparr>)
         else s1)"


subsection \<open>The sliders callback\<close>

text \<open>\<^verbatim>\<open>t[:] = v\<close> on a tensor of one and of two dimensions: every element becomes \<open>v\<close>,
  the shape stays.\<close>

definition fill :: "real list \<Rightarrow> real \<Rightarrow> real list" where
  "fill t v = map (\<lambda>_. v) t"

definition fill2 :: "real list list \<Rightarrow> real \<Rightarrow> real list list" where
  "fill2 t v = map (\<lambda>row. map (\<lambda>_. v) row) t"

text \<open>
  \<^verbatim>\<open>
  def sliders_callback(new_elevation, new_azimuth, new_amplitude, new_sharpness):
      with visualizer.out: # This is in case of bug
          elevation[:] = new_elevation
          azimuth[:] = new_azimuth
          amplitude[:] = new_amplitude
          sharpness[:] = new_sharpness
          # this is how we request a new update
          visualizer.render_update()
  \<close>
  The callback returns \<^verbatim>\<open>None\<close> on every path; the model returns the state.
\<close>

definition sliders_callback ::
  "real \<Rightarrow> real \<Rightarrow> real \<Rightarrow> real \<Rightarrow> 't notebook \<Rightarrow> 't notebook" where
  "sliders_callback new_elevation new_azimuth new_amplitude new_sharpness s0 =
     snd (with_out (\<lambda>s.
       let g = globals s;
           g1 = g\<lparr>elevation := fill (elevation g) new_elevation\<rparr>;
           g2 = g1\<lparr>azimuth := fill (azimuth g1) new_azimuth\<rparr>;
           g3 = g2\<lparr>amplitude := fill2 (amplitude g2) new_amplitude\<rparr>;
           g4 = g3\<lparr>sharpness := fill (sharpness g3) new_sharpness\<rparr>
       in render_update (s\<lparr>globals := g4\<rparr>)) s0)"

subsection \<open>Notions used in the statements\<close>

text \<open>A keydown event for the space key, and an event that carries the fields the
  additional event handler reads.\<close>

definition is_space_keydown :: "event \<Rightarrow> bool" where
  "is_space_keydown ev \<longleftrightarrow>
     ev ''type'' = Some (JStr ''keydown'') \<and> ev ''key'' = Some (JStr '' '')"

definition well_formed :: "event \<Rightarrow> bool" where
  "well_formed ev \<longleftrightarrow>
     ev ''type'' \<noteq> None \<and> (ev ''type'' = Some (JStr ''keydown'') \<longrightarrow> ev ''key'' \<noteq> None)"

text \<open>Single changes of the session state: the flag negated, one more entry in the log
  of render-callback invocations, one more error in the output area, a new image on the
  canvas.\<close>

definition toggle_specular :: "'t notebook \<Rightarrow> 't notebook" where
  "toggle_specular s =
     s\<lparr>globals := (globals s)\<lparr>apply_specular := \<not> apply_specular (globals s)\<rparr>\<rparr>"

definition log_render :: "resolution \<Rightarrow> 't notebook \<Rightarrow> 't notebook" where
  "log_render res s =
     s\<lparr>visualizer := (visualizer s)
          \<lparr>rendered := rendered (visualizer s) @ [(res, globals s, camera (visualizer s))]\<rparr>\<rparr>"

definition show_error :: "pyerr \<Rightarrow> 't notebook \<Rightarrow> 't notebook" where
  "show_error e s = s\<lparr>visualizer := (visualizer s)\<lparr>out := out (visualizer s) @ [e]\<rparr>\<rparr>"

definition show_image :: "rgb8 grid \<Rightarrow> 't notebook \<Rightarrow> 't notebook" where
  "show_image i s = s\<lparr>visualizer := (visualizer s)\<lparr>canvas := Some i\<rparr>\<rparr>"

text \<open>The four lighting parameters, each filled with its new value.\<close>

definition set_lighting :: "real \<Rightarrow> real \<Rightarrow> real \<Rightarrow> real \<Rightarrow> 't globals \<Rightarrow> 't globals" where
  "set_lighting ne na nam ns g =
     g\<lparr>elevation := replicate (length (elevation g)) ne,
       azimuth := replicate (length (azimuth g)) na,
       amplitude := map (\<lambda>row. replicate (length row) nam) (amplitude g),
       sharpness := replicate (length (sharpness g)) ns\<rparr>"

text \<open>
  Stated in the spec's words: a single render operation with a resolution-scale
  argument, the base render at the camera's dimensions divided by the scale.
\<close>

definition render_at_scale ::
  "'t ext \<Rightarrow> int \<Rightarrow> 't globals \<Rightarrow> camera \<Rightarrow> (pyerr + render_result) \<times> camera" where
  "render_at_scale X k g cam =
     base_render X g (mesh g) cam (int_truediv (height cam) k) (int_truediv (width cam) k)"

text \<open>Both buffers of a render result have \<open>h\<close> rows of \<open>w\<close> pixels.\<close>

definition has_shape :: "render_result \<Rightarrow> int \<Rightarrow> int \<Rightarrow> bool" where
  "has_shape r h w \<longleftrightarrow>
     0 \<le> h \<and> 0 \<le> w
     \<and> map length (img r) = replicate (nat h) (nat w)
     \<and> map length (face_idx r) = replicate (nat h) (nat w)"

text \<open>
  The last line of \<^verbatim>\<open>base_render\<close> for one pixel \<open>p\<close> of the float image whose coverage
  is \<open>k\<close>: \<^verbatim>\<open>(torch.clamp(img * hard_mask, 0., 1.)[0] * 255.).to(torch.uint8)\<close>.
\<close>

definition finish_px :: "vec3 \<Rightarrow> bool \<Rightarrow> rgb8" where
  "finish_px p k = (case p of (r, g, b) \<Rightarrow>
     (to_uint8 (clamp01 (r * of_bool k) * 255), to_uint8 (clamp01 (g * of_bool k) * 255),
      to_uint8 (clamp01 (b * of_bool k) * 255)))"


text \<open>What holds of every result a computation returns.\<close>

definition post :: "'a cam_io \<Rightarrow> ('a \<Rightarrow> bool) \<Rightarrow> bool" where
  "post m Q \<longleftrightarrow> (\<forall>c r c'. m c = (Inr r, c') \<longrightarrow> Q r)"

text \<open>
  What \<^verbatim>\<open>base_render\<close> establishes of its result: the result is assembled from a float
  image of the requested size and from the flipped output of the rasterizer, which has
  the same size; the float image is zero where the rasterizer reports no coverage.
\<close>

definition render_post ::
  "'t ext \<Rightarrow> 't mesh \<Rightarrow> int \<Rightarrow> int \<Rightarrow> render_result \<Rightarrow> bool" where
  "render_post X m h w r \<longleftrightarrow>
     (\<exists>vertices_clip rast image.
        rasterize X vertices_clip (map (map to_int32) (faces m)) h w = Inr rast
        \<and> 0 \<le> h \<and> 0 \<le> w
        \<and> map length image = replicate (nat h) (nat w)
        \<and> map length (rev rast) = map length image
        \<and> (\<forall>y i. y < length image \<longrightarrow> i < length (image ! y) \<longrightarrow>
               \<not> coverage (rev rast ! y ! i) \<longrightarrow> image ! y ! i = (0, 0, 0))
        \<and> img r = map2 (map2 finish_px) image (map (map coverage) (rev rast))
        \<and> face_idx r = map (map (\<lambda>(u, v, zw, tri). to_long tri - 1)) (rev rast))"

text \<open>A computation that returns the camera as it got it, and a library whose camera
  methods all do.\<close>

definition cam_preserved :: "'a cam_io \<Rightarrow> bool" where
  "cam_preserved m \<longleftrightarrow> (\<forall>c. snd (m c) = c)"

definition camera_readonly :: "'t ext \<Rightarrow> bool" where
  "camera_readonly X \<longleftrightarrow>
     (\<forall>v. cam_preserved (extrinsics_transform X v))
     \<and> cam_preserved (projection_matrix X)
     \<and> (\<forall>a. cam_preserved (tan_half_fov X a))
     \<and> (\<forall>orig dir. cam_preserved (extrinsics_inv_transform_rays X orig dir))"

subsection \<open>A small session\<close>

text \<open>
  A mesh of one triangle, a camera of two by two pixels, and a library whose rasterizer
  covers the pixels with odd coordinate sum with that triangle; its diffuse term is
  \<open>(2, 1/2, -1)\<close> and its specular term \<open>(1/4, 1/4, 1/4)\<close> on every covered pixel.
\<close>

definition example_mesh :: "unit mesh" where
  "example_mesh =
     \<lparr>vertices = (), faces = [[0, 1, 2]], normals = None, face_normals_idx = None,
      uvs = [(0, 0), (1, 1), (0, 0)], face_uvs_idx = [[0, 1, 2]],
      material_assignments = [0]\<rparr>"

definition example_globals :: "unit globals" where
  "example_globals =
     \<lparr>mesh = example_mesh, diffuse_maps = [()], specular_maps = [()],
      azimuth = [0], elevation = [1], amplitude = [[3, 3, 3]], sharpness = [5],
      apply_specular = True\<rparr>"

definition example_camera :: camera where
  "example_camera =
     \<lparr>height = 2, width = 2, x0 = 0, y0 = 0, extrinsics = [], intrinsics = []\<rparr>"

definition example_ext :: "unit ext" where
  "example_ext =
     \<lparr>extrinsics_transform = (\<lambda>v. returnC ()),
      projection_matrix = returnC (),
      tan_half_fov = (\<lambda>a. returnC 0),
      extrinsics_inv_transform_rays = (\<lambda>orig dir. returnC (orig, dir)),
      index_vertices_by_faces = (\<lambda>v f. Inr ()),
      face_normals = (\<lambda>t. Inr [(0, 0, 1)]),
      up_to_homogeneous = (\<lambda>v. Inr ()),
      matmul = (\<lambda>a b. Inr ()),
      mesh_face_normals = (\<lambda>m. Inr ()),
      spherical2cartesian = (\<lambda>a e. Inr ([0], [0], [1])),
      sg_diffuse_inner_product = (\<lambda>amp dir sh n alb. Inr (map (\<lambda>p. (2, 1 / 2, - 1)) n)),
      sg_warp_specular_term =
        (\<lambda>amp dir sh n r v alb. Inr (map (\<lambda>p. (1 / 4, 1 / 4, 1 / 4)) n)),
      rasterize =
        (\<lambda>v f h w. Inr (map (\<lambda>y. map (\<lambda>x. (0, 0, 0, if odd (x + y) then 1 else 0))
                              [0..<nat w]) [0..<nat h])),
      interpolate_uv = (\<lambda>u r i. Inr (map (map (\<lambda>p. (1 / 2, 1 / 2))) r)),
      interpolate_normals = (\<lambda>n r i. Inr (map (map (\<lambda>p. (0, 0, 1))) r)),
      texture = (\<lambda>t uv. Inr (map (\<lambda>p. (1, 1, 1)) uv))\<rparr>"

text \<open>Render callbacks that always raise, that always return one black pixel, and that
  raise exactly when specular reflectance is off; a session around a callback.\<close>

definition failing_render :: "unit globals \<Rightarrow> camera \<Rightarrow> pyerr + render_result" where
  "failing_render g c = Inl (LibraryError 0)"

definition black_render :: "unit globals \<Rightarrow> camera \<Rightarrow> pyerr + render_result" where
  "black_render g c = Inr \<lparr>img = [[(0, 0, 0)]], face_idx = [[- 1]]\<rparr>"


text \<open>The library of the small session with a \<^verbatim>\<open>projection_matrix\<close> that moves the
  principal point of the camera it is called on.\<close>

definition mutating_ext :: "unit ext" where
  "mutating_ext = example_ext\<lparr>projection_matrix := (\<lambda>c. (Inr (), c\<lparr>x0 := x0 c + 1\<rparr>))\<rparr>"

definition example_notebook ::
  "(unit globals \<Rightarrow> camera \<Rightarrow> pyerr + render_result) \<Rightarrow> unit notebook" where
  "example_notebook rf =
     \<lparr>globals = example_globals,
      visualizer = \<lparr>camera = example_camera, render_fn = rf, fast_render_fn = rf,
                    max_fps = 24, canvas = None, out = [], rendered = []\<rparr>\<rparr>"

definition space_keydown :: event where
  "space_keydown = [''type'' \<mapsto> JStr ''keydown'', ''key'' \<mapsto> JStr '' '']"

definition mousemove :: event where
  "mousemove = [''type'' \<mapsto> JStr ''mousemove'', ''buttons'' \<mapsto> JNum 1]"

section \<open>Properties\<close>

subsection \<open>Mesh preprocessing\<close>

lemma uvs_pad_and_remap: "uvs (pad_and_remap m) = uvs m @ [(0, 0)]"
  by (simp add: pad_and_remap_def pad_uvs_def Let_def)

lemma face_uvs_idx_pad_and_remap:
  "face_uvs_idx (pad_and_remap m) =
     map (map (\<lambda>i. if i = - 1 then int (length (uvs m)) else i)) (face_uvs_idx m)"
  by (simp add: pad_and_remap_def pad_uvs_def assign_where_eq_def Let_def)

lemma entries_pad_and_remap:
  "entries (face_uvs_idx (pad_and_remap m)) =
     (\<lambda>i. if i = - 1 then int (length (uvs m)) else i) ` entries (face_uvs_idx m)"
  by (auto simp: entries_def face_uvs_idx_pad_and_remap)

text \<open>
  C9, as stated: after the preprocessing step every entry of \<^verbatim>\<open>face_uvs_idx\<close> is a
  valid index into the padded uv array. The step only rewrites the sentinel \<open>-1\<close>: a
  mesh with two uv rows and a face whose uv indices are \<open>0, 1, 7\<close> keeps the entry
  \<open>7\<close>, which is out of range of the three padded rows.
\<close>

theorem pad_and_remap_valid_counterexample:
  "7 \<in> entries (face_uvs_idx (pad_and_remap
          \<lparr>vertices = (), faces = [[0, 1, 2]], normals = None, face_normals_idx = None,
           uvs = [(0, 0), (1, 1)], face_uvs_idx = [[0, 1, 7]],
           material_assignments = [0]\<rparr>))
   \<and> \<not> valid_uv_index (pad_and_remap
          \<lparr>vertices = (), faces = [[0, 1, 2]], normals = None, face_normals_idx = None,
           uvs = [(0, 0), (1, 1)], face_uvs_idx = [[0, 1, 7]],
           material_assignments = [0]\<rparr>) 7"
  by (simp add: entries_def valid_uv_index_def uvs_pad_and_remap face_uvs_idx_pad_and_remap)

text \<open>
  C9, amended: if every entry of \<^verbatim>\<open>face_uvs_idx\<close> before the step is the sentinel
  \<open>-1\<close> or a valid index into the unpadded uv array, then after the step every entry
  is a valid nonnegative index into the padded uv array, strictly below its length;
  the padded array has exactly one more row, and no entry equals the sentinel.
\<close>

theorem pad_and_remap_valid:
  assumes "\<forall>i \<in> entries (face_uvs_idx m). i = - 1 \<or> valid_uv_index m i"
  shows "(\<forall>i \<in> entries (face_uvs_idx (pad_and_remap m)).
            valid_uv_index (pad_and_remap m) i \<and> i \<noteq> - 1)
         \<and> length (uvs (pad_and_remap m)) = length (uvs m) + 1"
proof -
  have "valid_uv_index (pad_and_remap m) j \<and> j \<noteq> - 1"
    if "j \<in> entries (face_uvs_idx (pad_and_remap m))" for j
  proof -
    from that obtain i where i: "i \<in> entries (face_uvs_idx m)"
      and j: "j = (if i = - 1 then int (length (uvs m)) else i)"
      by (auto simp: entries_pad_and_remap)
    from assms i have "i = - 1 \<or> (0 \<le> i \<and> i < int (length (uvs m)))"
      by (simp add: valid_uv_index_def)
    with j show ?thesis
      by (auto simp: valid_uv_index_def uvs_pad_and_remap)
  qed
  then show ?thesis
    by (simp add: uvs_pad_and_remap)
qed

text \<open>
  C9, the amended statement at a mesh with two uv rows and the face \<open>0, 1, -1\<close>: the
  sentinel becomes \<open>2\<close>, the index of the padded row.
\<close>

theorem pad_and_remap_valid_witness:
  "2 \<in> entries (face_uvs_idx (pad_and_remap
        \<lparr>vertices = (), faces = [[0, 1, 2]], normals = None, face_normals_idx = None,
         uvs = [(0, 0), (1, 1)], face_uvs_idx = [[0, 1, - 1]],
         material_assignments = [0]\<rparr>))
   \<and> valid_uv_index (pad_and_remap
        \<lparr>vertices = (), faces = [[0, 1, 2]], normals = None, face_normals_idx = None,
         uvs = [(0, 0), (1, 1)], face_uvs_idx = [[0, 1, - 1]],
         material_assignments = [0]\<rparr>) 2
   \<and> length (uvs (pad_and_remap
        \<lparr>vertices = (), faces = [[0, 1, 2]], normals = None, face_normals_idx = None,
         uvs = [(0, 0), (1, 1)], face_uvs_idx = [[0, 1, - 1]],
         material_assignments = [0]\<rparr>)) = 3"
proof -
  let ?m = "\<lparr>vertices = (), faces = [[0, 1, 2]], normals = None, face_normals_idx = None,
         uvs = [(0, 0), (1, 1)], face_uvs_idx = [[0, 1, - 1]],
         material_assignments = [0::int]\<rparr>"
  have pre: "\<forall>i \<in> entries (face_uvs_idx ?m). i = - 1 \<or> valid_uv_index ?m i"
    by (simp add: entries_def valid_uv_index_def)
  have mem: "2 \<in> entries (face_uvs_idx (pad_and_remap ?m))"
    by (simp add: entries_def face_uvs_idx_pad_and_remap)
  from pad_and_remap_valid [OF pre] mem show ?thesis
    by auto
qed

subsection \<open>The additional event handler, case by case\<close>

lemma render_update_Inl:
  "render_fn (visualizer s) (globals s) (camera (visualizer s)) = Inl e \<Longrightarrow>
   render_update s = (Inl e, log_render Full s)"
  by (simp add: render_update_def dispatch_def log_render_def Let_def)

lemma render_update_Inr:
  "render_fn (visualizer s) (globals s) (camera (visualizer s)) = Inr r \<Longrightarrow>
   render_update s = (Inr (), show_image (img r) (log_render Full s))"
  by (simp add: render_update_def dispatch_def log_render_def show_image_def Let_def)

lemma aeh_no_type:
  "ev ''type'' = None \<Longrightarrow>
   additional_event_handler s ev = (None, show_error (KeyError ''type'') s)"
  by (simp add: additional_event_handler_def with_out_def getitem_def show_error_def)

lemma aeh_other_type:
  "ev ''type'' = Some ty \<Longrightarrow> ty \<noteq> JStr ''keydown'' \<Longrightarrow>
   additional_event_handler s ev = (Some True, s)"
  by (simp add: additional_event_handler_def with_out_def getitem_def)

lemma aeh_no_key:
  "ev ''type'' = Some (JStr ''keydown'') \<Longrightarrow> ev ''key'' = None \<Longrightarrow>
   additional_event_handler s ev = (None, show_error (KeyError ''key'') s)"
  by (simp add: additional_event_handler_def with_out_def getitem_def show_error_def)

lemma aeh_other_key:
  "ev ''type'' = Some (JStr ''keydown'') \<Longrightarrow> ev ''key'' = Some k \<Longrightarrow> k \<noteq> JStr '' '' \<Longrightarrow>
   additional_event_handler s ev = (Some True, s)"
  by (simp add: additional_event_handler_def with_out_def getitem_def)

lemma aeh_space:
  "is_space_keydown ev \<Longrightarrow>
   additional_event_handler s ev =
     (case render_fn (visualizer s) (globals (toggle_specular s)) (camera (visualizer s)) of
        Inl e \<Rightarrow> (None, show_error e (log_render Full (toggle_specular s)))
      | Inr r \<Rightarrow> (Some False, show_image (img r) (log_render Full (toggle_specular s))))"
  by (simp add: is_space_keydown_def additional_event_handler_def with_out_def getitem_def
      render_update_def dispatch_def log_render_def show_error_def show_image_def
      toggle_specular_def Let_def split: sum.splits)

lemma well_formed_space: "is_space_keydown ev \<Longrightarrow> well_formed ev"
  by (simp add: is_space_keydown_def well_formed_def)

lemma aeh_result:
  "fst (additional_event_handler s ev) =
     (if is_space_keydown ev
      then (case render_fn (visualizer s) (globals (toggle_specular s)) (camera (visualizer s)) of
              Inl e \<Rightarrow> None | Inr r \<Rightarrow> Some False)
      else if well_formed ev then Some True else None)"
proof (cases "is_space_keydown ev")
  case True
  then show ?thesis by (simp add: aeh_space split: sum.splits)
next
  case False
  show ?thesis
  proof (cases "ev ''type''")
    case None
    with False show ?thesis by (simp add: aeh_no_type well_formed_def)
  next
    case (Some ty)
    show ?thesis
    proof (cases "ty = JStr ''keydown''")
      case ty: True
      show ?thesis
      proof (cases "ev ''key''")
        case None
        with False Some ty show ?thesis by (simp add: aeh_no_key well_formed_def)
      next
        case (Some k)
        with False \<open>ev ''type'' = Some ty\<close> ty have "k \<noteq> JStr '' ''"
          by (auto simp: is_space_keydown_def)
        with False Some \<open>ev ''type'' = Some ty\<close> ty show ?thesis
          by (simp add: aeh_other_key well_formed_def)
      qed
    next
      case ty: False
      with False Some show ?thesis by (simp add: aeh_other_type well_formed_def)
    qed
  qed
qed

lemma aeh_not_space:
  "\<not> is_space_keydown ev \<Longrightarrow>
   snd (additional_event_handler s ev) = s
   \<or> (\<exists>k. snd (additional_event_handler s ev) = show_error (KeyError k) s)"
  by (cases "ev ''type''"; cases "ev ''key''")
     (auto simp: is_space_keydown_def additional_event_handler_def with_out_def getitem_def
        show_error_def)

lemma aeh_camera:
  "camera (visualizer (snd (additional_event_handler s ev))) = camera (visualizer s)"
proof (cases "is_space_keydown ev")
  case True
  then show ?thesis
    by (simp add: aeh_space show_error_def show_image_def log_render_def toggle_specular_def
        split: sum.splits)
next
  case False
  from aeh_not_space [OF this, of s] show ?thesis
    by (auto simp: show_error_def)
qed

lemma aeh_globals:
  "globals (snd (additional_event_handler s ev)) =
     (if is_space_keydown ev then globals (toggle_specular s) else globals s)"
proof (cases "is_space_keydown ev")
  case True
  then show ?thesis
    by (simp add: aeh_space show_error_def show_image_def log_render_def split: sum.splits)
next
  case False
  from aeh_not_space [OF this, of s] False show ?thesis
    by (auto simp: show_error_def)
qed

lemma aeh_rendered:
  "rendered (visualizer (snd (additional_event_handler s ev))) =
     (if is_space_keydown ev
      then rendered (visualizer s) @ [(Full, globals (toggle_specular s), camera (visualizer s))]
      else rendered (visualizer s))"
proof (cases "is_space_keydown ev")
  case True
  then show ?thesis
    by (simp add: aeh_space show_error_def show_image_def log_render_def toggle_specular_def
        split: sum.splits)
next
  case False
  from aeh_not_space [OF this, of s] False show ?thesis
    by (auto simp: show_error_def)
qed


lemma handle_event_veto:
  "\<not> truthy (fst (h s ev)) \<Longrightarrow> handle_event ctl rf (Some h) s ev = snd (h s ev)"
  by (cases "h s ev") (simp add: handle_event_def)

lemma is_space_keydown_space [simp]: "is_space_keydown space_keydown"
  by (simp add: is_space_keydown_def space_keydown_def)

lemma not_space_keydown_mousemove [simp]: "\<not> is_space_keydown mousemove"
  by (simp add: is_space_keydown_def mousemove_def)

lemma not_space_keydown_empty [simp]: "\<not> is_space_keydown Map.empty"
  by (simp add: is_space_keydown_def)

lemma well_formed_space_keydown [simp]: "well_formed space_keydown"
  by (simp add: well_formed_space)

lemma well_formed_mousemove [simp]: "well_formed mousemove"
  by (simp add: well_formed_def mousemove_def)

lemma not_well_formed_empty [simp]: "\<not> well_formed Map.empty"
  by (simp add: well_formed_def)

subsection \<open>The veto of the additional event handler\<close>

text \<open>
  C1, as stated: the handler returns \<^verbatim>\<open>False\<close> exactly for the keydown events of the
  space key and \<^verbatim>\<open>True\<close> for every other event. Two events where it returns neither:
  a keydown of the space key whose render update raises (the \<^verbatim>\<open>with\<close> block swallows the
  exception before \<^verbatim>\<open>return False\<close> is reached, and the function ends with \<^verbatim>\<open>None\<close>),
  and an event without the field \<^verbatim>\<open>'type'\<close> (\<^verbatim>\<open>event['type']\<close> raises \<^verbatim>\<open>KeyError\<close>,
  which the block swallows as well).
\<close>

theorem additional_event_handler_veto_counterexample:
  "is_space_keydown space_keydown
   \<and> fst (additional_event_handler (example_notebook failing_render) space_keydown) \<noteq> Some False
   \<and> \<not> is_space_keydown Map.empty
   \<and> fst (additional_event_handler (example_notebook black_render) Map.empty) \<noteq> Some True"
  by (simp add: aeh_space aeh_no_type example_notebook_def failing_render_def)

text \<open>
  C1, amended. For every event: if the additional handler \<open>h\<close> returns a falsy result,
  the router skips the default camera-control mapping and the frame request, so the
  state after the event is the one the handler left; with the notebook's handler the
  camera is then the one before the event. For an event that carries the fields the
  notebook's handler reads (a type, and a key when the type is keydown), the handler's
  result is falsy exactly when the event is a keydown of the space key, and it is
  \<^verbatim>\<open>True\<close> for every other such event. On a keydown of the space key the result is
  \<^verbatim>\<open>False\<close> when the render update returns and \<^verbatim>\<open>None\<close> when it raises; for an event
  that lacks a field the handler reads the result is \<^verbatim>\<open>None\<close>.
\<close>

theorem additional_event_handler_veto:
  "(\<not> truthy (fst (h s ev)) \<longrightarrow> handle_event ctl rf (Some h) s ev = snd (h s ev))
   \<and> (\<not> truthy (fst (additional_event_handler s ev)) \<longrightarrow>
        camera (visualizer (handle_event ctl rf (Some additional_event_handler) s ev)) =
        camera (visualizer s))
   \<and> (well_formed ev \<longrightarrow>
        (\<not> truthy (fst (additional_event_handler s ev)) \<longleftrightarrow> is_space_keydown ev))
   \<and> (well_formed ev \<and> \<not> is_space_keydown ev \<longrightarrow>
        fst (additional_event_handler s ev) = Some True)
   \<and> (is_space_keydown ev \<longrightarrow>
        fst (additional_event_handler s ev) =
          (case render_fn (visualizer s) (globals (toggle_specular s)) (camera (visualizer s)) of
             Inl e \<Rightarrow> None | Inr r \<Rightarrow> Some False))
   \<and> (\<not> well_formed ev \<longrightarrow> fst (additional_event_handler s ev) = None)"
proof -
  have veto: "\<not> truthy (fst (h s ev)) \<longrightarrow> handle_event ctl rf (Some h) s ev = snd (h s ev)"
    by (simp add: handle_event_veto)
  have cam: "\<not> truthy (fst (additional_event_handler s ev)) \<longrightarrow>
        camera (visualizer (handle_event ctl rf (Some additional_event_handler) s ev)) =
        camera (visualizer s)"
    by (simp add: handle_event_veto aeh_camera)
  have res: "well_formed ev \<longrightarrow>
        (\<not> truthy (fst (additional_event_handler s ev)) \<longleftrightarrow> is_space_keydown ev)"
    by (simp add: aeh_result truthy_def split: sum.splits)
  have other: "well_formed ev \<and> \<not> is_space_keydown ev \<longrightarrow>
        fst (additional_event_handler s ev) = Some True"
    by (simp add: aeh_result)
  have space: "is_space_keydown ev \<longrightarrow>
        fst (additional_event_handler s ev) =
          (case render_fn (visualizer s) (globals (toggle_specular s)) (camera (visualizer s)) of
             Inl e \<Rightarrow> None | Inr r \<Rightarrow> Some False)"
    by (simp add: aeh_result)
  have bad: "\<not> well_formed ev \<longrightarrow> fst (additional_event_handler s ev) = None"
    using well_formed_space [of ev] by (auto simp: aeh_result)
  from veto cam res other space bad show ?thesis by blast
qed

text \<open>
  C1, the amended statement in the small session, with a default mapping that would move
  the principal point: a keydown of the space key is vetoed and the camera stays, a
  mouse move is let through, an event without fields gives \<^verbatim>\<open>None\<close>.
\<close>

theorem additional_event_handler_veto_witness:
  "fst (additional_event_handler (example_notebook black_render) space_keydown) = Some False
   \<and> camera (visualizer (handle_event (\<lambda>c ev. c\<lparr>x0 := x0 c + 1\<rparr>) (\<lambda>s. s)
        (Some additional_event_handler) (example_notebook black_render) space_keydown)) =
      example_camera
   \<and> fst (additional_event_handler (example_notebook black_render) mousemove) = Some True
   \<and> fst (additional_event_handler (example_notebook black_render) Map.empty) = None"
proof -
  let ?s = "example_notebook black_render"
  have r: "render_fn (visualizer ?s) g cam = Inr \<lparr>img = [[(0, 0, 0)]], face_idx = [[- 1]]\<rparr>"
    for g cam
    by (simp add: example_notebook_def black_render_def)
  have c: "camera (visualizer ?s) = example_camera"
    by (simp add: example_notebook_def)
  note t = additional_event_handler_veto [of additional_event_handler ?s space_keydown
        "\<lambda>c ev. c\<lparr>x0 := x0 c + 1\<rparr>" "\<lambda>s. s"]
  from t have 1: "fst (additional_event_handler ?s space_keydown) = Some False"
    by (simp add: r)
  then have "\<not> truthy (fst (additional_event_handler ?s space_keydown))"
    by (simp add: truthy_def)
  with t have "camera (visualizer (handle_event (\<lambda>c ev. c\<lparr>x0 := x0 c + 1\<rparr>) (\<lambda>s. s)
        (Some additional_event_handler) ?s space_keydown)) = camera (visualizer ?s)"
    by blast
  then have 2: "camera (visualizer (handle_event (\<lambda>c ev. c\<lparr>x0 := x0 c + 1\<rparr>) (\<lambda>s. s)
        (Some additional_event_handler) ?s space_keydown)) = example_camera"
    by (simp only: c)
  from additional_event_handler_veto [of additional_event_handler ?s mousemove
        "\<lambda>c ev. c" "\<lambda>s. s"]
  have 3: "fst (additional_event_handler ?s mousemove) = Some True"
    by simp
  from additional_event_handler_veto [of additional_event_handler ?s Map.empty
        "\<lambda>c ev. c" "\<lambda>s. s"]
  have 4: "fst (additional_event_handler ?s Map.empty) = None"
    by simp
  from 1 2 3 4 show ?thesis by blast
qed

subsection \<open>The specular flag\<close>

text \<open>
  C10: a keydown of the space key negates \<^verbatim>\<open>apply_specular\<close>, leaves every other
  global as it is and invokes the render callback once, at full resolution, on the new
  globals; two such events in a row restore the globals, the flag among them; no other
  event changes any global or invokes the render callback. The render callback gets
  the globals as an argument and returns a render result only, so a render cannot
  change the flag.
\<close>

theorem space_keydown_toggles_specular:
  "(is_space_keydown ev \<longrightarrow>
      globals (snd (additional_event_handler s ev)) =
        (globals s)\<lparr>apply_specular := \<not> apply_specular (globals s)\<rparr>
      \<and> rendered (visualizer (snd (additional_event_handler s ev))) =
          rendered (visualizer s) @
            [(Full, globals (snd (additional_event_handler s ev)), camera (visualizer s))])
   \<and> (is_space_keydown ev \<and> is_space_keydown ev' \<longrightarrow>
        globals (snd (additional_event_handler (snd (additional_event_handler s ev)) ev')) =
        globals s)
   \<and> (\<not> is_space_keydown ev \<longrightarrow>
        globals (snd (additional_event_handler s ev)) = globals s
        \<and> rendered (visualizer (snd (additional_event_handler s ev))) = rendered (visualizer s))"
  by (simp add: aeh_globals aeh_rendered toggle_specular_def)

text \<open>
  C10 in the small session, where the flag starts as \<^verbatim>\<open>True\<close>: it is \<^verbatim>\<open>False\<close> after one
  keydown of the space key, with one render logged, \<^verbatim>\<open>True\<close> again after two, and
  \<^verbatim>\<open>True\<close> after a mouse move.
\<close>

theorem space_keydown_toggles_specular_witness:
  "apply_specular (globals (snd (additional_event_handler
      (example_notebook black_render) space_keydown))) = False
   \<and> length (rendered (visualizer (snd (additional_event_handler
      (example_notebook black_render) space_keydown)))) = 1
   \<and> apply_specular (globals (snd (additional_event_handler
      (snd (additional_event_handler (example_notebook black_render) space_keydown))
      space_keydown))) = True
   \<and> apply_specular (globals (snd (additional_event_handler
      (example_notebook black_render) mousemove))) = True"
proof -
  let ?s = "example_notebook black_render"
  have f: "apply_specular (globals ?s) = True" and l: "rendered (visualizer ?s) = []"
    by (simp_all add: example_notebook_def example_globals_def)
  note t = space_keydown_toggles_specular [of space_keydown ?s space_keydown]
  from t have g1: "globals (snd (additional_event_handler ?s space_keydown)) =
      (globals ?s)\<lparr>apply_specular := \<not> apply_specular (globals ?s)\<rparr>"
    and r1: "rendered (visualizer (snd (additional_event_handler ?s space_keydown))) =
      rendered (visualizer ?s) @
        [(Full, globals (snd (additional_event_handler ?s space_keydown)), camera (visualizer ?s))]"
    and g2: "globals (snd (additional_event_handler
        (snd (additional_event_handler ?s space_keydown)) space_keydown)) = globals ?s"
    by simp_all
  from space_keydown_toggles_specular [of mousemove ?s mousemove]
  have g3: "globals (snd (additional_event_handler ?s mousemove)) = globals ?s"
    by simp
  have 1: "apply_specular (globals (snd (additional_event_handler ?s space_keydown))) = False"
    unfolding g1 by (simp add: f)
  have 2: "length (rendered (visualizer (snd (additional_event_handler ?s space_keydown)))) = 1"
    unfolding r1 by (simp add: l)
  have 3: "apply_specular (globals (snd (additional_event_handler
        (snd (additional_event_handler ?s space_keydown)) space_keydown))) = True"
    unfolding g2 by (rule f)
  have 4: "apply_specular (globals (snd (additional_event_handler ?s mousemove))) = True"
    unfolding g3 by (rule f)
  from 1 2 3 4 show ?thesis by blast
qed

subsection \<open>The sliders callback\<close>

lemma fill_replicate: "fill t v = replicate (length t) v"
  by (simp add: fill_def map_replicate_const)

lemma fill2_replicate: "fill2 t v = map (\<lambda>row. replicate (length row) v) t"
  by (simp add: fill2_def map_replicate_const)

lemma sliders_callback_eq:
  "sliders_callback ne na nam ns s =
     (let s1 = log_render Full (s\<lparr>globals := set_lighting ne na nam ns (globals s)\<rparr>)
      in case render_fn (visualizer s) (set_lighting ne na nam ns (globals s))
                (camera (visualizer s)) of
           Inl e \<Rightarrow> show_error e s1
         | Inr r \<Rightarrow> show_image (img r) s1)"
  by (simp add: sliders_callback_def with_out_def render_update_def dispatch_def Let_def
      fill_replicate fill2_replicate set_lighting_def log_render_def show_error_def
      show_image_def split: sum.splits)

lemma globals_sliders_callback:
  "globals (sliders_callback ne na nam ns s) = set_lighting ne na nam ns (globals s)"
  by (simp add: sliders_callback_eq Let_def log_render_def show_error_def show_image_def
      split: sum.splits)

lemma rendered_sliders_callback:
  "rendered (visualizer (sliders_callback ne na nam ns s)) =
     rendered (visualizer s) @
       [(Full, set_lighting ne na nam ns (globals s), camera (visualizer s))]"
  by (simp add: sliders_callback_eq Let_def log_render_def show_error_def show_image_def
      split: sum.splits)

lemma canvas_sliders_callback:
  "canvas (visualizer (sliders_callback ne na nam ns s)) =
     (case render_fn (visualizer s) (set_lighting ne na nam ns (globals s))
             (camera (visualizer s)) of
        Inl e \<Rightarrow> canvas (visualizer s)
      | Inr r \<Rightarrow> Some (img r))"
  by (simp add: sliders_callback_eq Let_def log_render_def show_error_def show_image_def
      split: sum.splits)



text \<open>
  C2: for every call of the sliders callback with the four new values, afterwards every
  element of \<^verbatim>\<open>elevation\<close>, \<^verbatim>\<open>azimuth\<close>, \<^verbatim>\<open>amplitude\<close> and \<^verbatim>\<open>sharpness\<close> is the new value
  of its slider, in a tensor of the shape it had (the write is in place), the flag
  \<^verbatim>\<open>apply_specular\<close> is as before, and the render callback has been invoked exactly
  once more, at full resolution, on the globals that hold the new values; when that
  render returns, its image is the one on the canvas.
\<close>

theorem sliders_callback_writes_and_renders_once:
  "elevation (globals (sliders_callback ne na nam ns s)) =
     replicate (length (elevation (globals s))) ne
   \<and> azimuth (globals (sliders_callback ne na nam ns s)) =
     replicate (length (azimuth (globals s))) na
   \<and> amplitude (globals (sliders_callback ne na nam ns s)) =
     map (\<lambda>row. replicate (length row) nam) (amplitude (globals s))
   \<and> sharpness (globals (sliders_callback ne na nam ns s)) =
     replicate (length (sharpness (globals s))) ns
   \<and> apply_specular (globals (sliders_callback ne na nam ns s)) = apply_specular (globals s)
   \<and> rendered (visualizer (sliders_callback ne na nam ns s)) =
       rendered (visualizer s) @
         [(Full, globals (sliders_callback ne na nam ns s), camera (visualizer s))]
   \<and> canvas (visualizer (sliders_callback ne na nam ns s)) =
       (case render_fn (visualizer s) (globals (sliders_callback ne na nam ns s))
               (camera (visualizer s)) of
          Inl e \<Rightarrow> canvas (visualizer s)
        | Inr r \<Rightarrow> Some (img r))"
  unfolding globals_sliders_callback rendered_sliders_callback canvas_sliders_callback
  by (simp add: set_lighting_def)

subsection \<open>Exceptions inside the callbacks\<close>



subsection \<open>Shapes and untouched elements of the tensor operations\<close>

lemma bindE_InrE:
  assumes "bindE m f = Inr r"
  obtains x where "m = Inr x" and "f x = Inr r"
  using assms by (auto simp: bindE_def split: sum.splits)

lemma length_put [simp]: "length (put xs ms vs) = length xs"
  by (induction xs ms vs rule: put.induct) auto

lemma map_length_put_rows [simp]: "map length (put_rows x m v) = map length x"
  by (induction x m v rule: put_rows.induct) auto

lemma put_unmasked:
  "i < length xs \<Longrightarrow> i < length ms \<Longrightarrow> \<not> ms ! i \<Longrightarrow> put xs ms vs ! i = xs ! i"
proof (induction xs ms vs arbitrary: i rule: put.induct)
  case (1 x xs ms v vs)
  then show ?case by (cases i) auto
next
  case (2 x xs ms vs)
  then show ?case by (cases i) auto
qed auto

lemma put_rows_unmasked:
  "y < length x \<Longrightarrow> y < length m \<Longrightarrow> i < length (x ! y) \<Longrightarrow> i < length (m ! y) \<Longrightarrow>
   \<not> m ! y ! i \<Longrightarrow> put_rows x m v ! y ! i = x ! y ! i"
proof (induction x m v arbitrary: y rule: put_rows.induct)
  case (1 r rs m ms vs)
  then show ?case by (cases y) (auto simp: put_unmasked)
qed auto

lemma zeros_Inr:
  "zeros h w = Inr z \<Longrightarrow> 0 \<le> h \<and> 0 \<le> w \<and> z = replicate (nat h) (replicate (nat w) (0, 0, 0))"
  by (auto simp: zeros_def split: if_splits)

lemma scatter_Inr:
  assumes "scatter x m v = Inr z"
  shows "map length z = map length x" and "map length m = map length x"
    and "\<And>y i. y < length x \<Longrightarrow> i < length (x ! y) \<Longrightarrow> \<not> m ! y ! i \<Longrightarrow> z ! y ! i = x ! y ! i"
proof -
  from assms obtain v' where s: "same_shape x m" and z: "z = put_rows x m v'"
    by (auto simp: scatter_def elim!: bindE_InrE split: if_splits)
  show "map length z = map length x" by (simp add: z)
  from s show sm: "map length m = map length x" by (simp add: same_shape_def)
  fix y i assume y: "y < length x" and i: "i < length (x ! y)" and n: "\<not> m ! y ! i"
  from sm have lm: "length m = length x" by (metis length_map)
  from sm y lm have "length (m ! y) = length (x ! y)"
    by (metis nth_map)
  with y i n lm show "z ! y ! i = x ! y ! i"
    by (simp add: z put_rows_unmasked)
qed

lemma scatter_add_Inr:
  assumes "scatter_add x m v = Inr z"
  shows "map length z = map length x" and "map length m = map length x"
    and "\<And>y i. y < length x \<Longrightarrow> i < length (x ! y) \<Longrightarrow> \<not> m ! y ! i \<Longrightarrow> z ! y ! i = x ! y ! i"
proof -
  from assms obtain u where u: "scatter x m u = Inr z"
    by (auto simp: scatter_add_def elim!: bindE_InrE)
  from scatter_Inr [OF u] show "map length z = map length x" and "map length m = map length x"
    and "\<And>y i. y < length x \<Longrightarrow> i < length (x ! y) \<Longrightarrow> \<not> m ! y ! i \<Longrightarrow> z ! y ! i = x ! y ! i"
    by blast+
qed

lemma zip_grid_Inr:
  "zip_grid f a b = Inr z \<Longrightarrow> map length a = map length b \<and> z = map2 (map2 f) a b"
  by (auto simp: zip_grid_def same_shape_def split: if_splits)


lemma map_length_map2_grid:
  assumes "map length a = map length b"
  shows "map length (map2 (map2 f) a b) = map length a"
proof -
  from assms have l: "length b = length a" by (metis length_map)
  show ?thesis
  proof (rule nth_equalityI)
    show "length (map length (map2 (map2 f) a b)) = length (map length a)" by (simp add: l)
  next
    fix i assume "i < length (map length (map2 (map2 f) a b))"
    then have i: "i < length a" by (simp add: l)
    with assms l have "length (b ! i) = length (a ! i)" by (metis nth_map)
    with i l show "map length (map2 (map2 f) a b) ! i = map length a ! i" by simp
  qed
qed


subsection \<open>What base_render establishes\<close>

text \<open>Rules that walk through a computation step by step, keeping what each step that
  did not raise says about its result.\<close>

lemma post_bind_liftE: "(\<And>x. e = Inr x \<Longrightarrow> post (f x) Q) \<Longrightarrow> post (bindC (liftE e) f) Q"
  by (auto simp: post_def bindC_def liftE_def split: sum.splits)

lemma post_bind_any: "(\<And>x. post (f x) Q) \<Longrightarrow> post (bindC m f) Q"
  by (auto simp: post_def bindC_def split: sum.splits prod.splits)

lemma post_returnC: "Q x \<Longrightarrow> post (returnC x) Q"
  by (auto simp: post_def returnC_def)

lemma post_case_prod: "(\<And>a b. post (f a b) Q) \<Longrightarrow> post (case_prod f x) Q"
  by (cases x) simp

lemma post_bind_if:
  "(b \<Longrightarrow> post (bindC m1 f) Q) \<Longrightarrow> (\<not> b \<Longrightarrow> post (bindC m2 f) Q) \<Longrightarrow>
   post (bindC (if b then m1 else m2) f) Q"
  by simp

lemma bindC_assoc: "bindC (bindC m f) k = bindC m (\<lambda>x. bindC (f x) k)"
  by (auto simp: bindC_def fun_eq_iff split: prod.splits sum.splits)

lemma post_bind_assoc: "post (bindC m (\<lambda>x. bindC (f x) k)) Q \<Longrightarrow> post (bindC (bindC m f) k) Q"
  by (simp add: bindC_assoc)

lemma post_bind_returnC: "post (f x) Q \<Longrightarrow> post (bindC (returnC x) f) Q"
  by (auto simp: post_def bindC_def returnC_def)

lemma map_map2_grid: "map (map f) (map2 (map2 g) a b) = map2 (map2 (\<lambda>x y. f (g x y))) a b"
  by (simp add: case_prod_unfold comp_def)

lemma finish_render:
  assumes r: "rasterize X vc (map (map to_int32) (faces m)) h w = Inr rast"
    and z: "zeros h w = Inr image0"
    and s: "scatter image0 (map (map coverage) (rev rast)) d = Inr image1"
    and a: "image2 = image1 \<or> (\<exists>sp. scatter_add image1 (map (map coverage) (rev rast)) sp = Inr image2)"
    and k: "zip_grid (\<lambda>(r, g, b) k. (r * of_bool k, g * of_bool k, b * of_bool k)) image2
              (map (map coverage) (rev rast)) = Inr masked"
  shows "render_post X m h w
           \<lparr>img = map (map (\<lambda>(r, g, b).
                    (to_uint8 (clamp01 r * 255), to_uint8 (clamp01 g * 255),
                     to_uint8 (clamp01 b * 255)))) masked,
            face_idx = map (map (\<lambda>(u, v, zw, tri). to_long tri - 1)) (rev rast)\<rparr>"
proof -
  let ?mask = "map (map coverage) (rev rast)"
  from zeros_Inr [OF z] have h: "0 \<le> h" and w: "0 \<le> w"
    and i0: "image0 = replicate (nat h) (replicate (nat w) (0, 0, 0))" by auto
  have l0: "map length image0 = replicate (nat h) (nat w)" by (simp add: i0)
  note s1 = scatter_Inr [OF s]
  have l1: "map length image1 = replicate (nat h) (nat w)" using s1(1) l0 by simp
  have len0: "length image1 = length image0" using s1(1) by (metis length_map)
  have u1: "image1 ! y ! i = (0, 0, 0)"
    if "y < length image1" "i < length (image1 ! y)" "\<not> ?mask ! y ! i" for y i
  proof -
    from that(1) len0 have y0: "y < length image0" by simp
    from s1(1) y0 len0 have "length (image1 ! y) = length (image0 ! y)" by (metis nth_map)
    with that(2) have i0': "i < length (image0 ! y)" by simp
    from s1(3) [OF y0 i0' that(3)] have "image1 ! y ! i = image0 ! y ! i" .
    also from y0 i0' have "\<dots> = (0, 0, 0)" by (simp add: i0)
    finally show ?thesis .
  qed
  have l2: "map length image2 = replicate (nat h) (nat w)"
    and u2: "\<And>y i. y < length image2 \<Longrightarrow> i < length (image2 ! y) \<Longrightarrow> \<not> ?mask ! y ! i \<Longrightarrow>
               image2 ! y ! i = (0, 0, 0)"
  proof -
    from a show "map length image2 = replicate (nat h) (nat w)"
      using l1 scatter_add_Inr(1) by fastforce
  next
    fix y i assume y: "y < length image2" and i: "i < length (image2 ! y)" and n: "\<not> ?mask ! y ! i"
    from a show "image2 ! y ! i = (0, 0, 0)"
    proof
      assume "image2 = image1"
      with y i n u1 show ?thesis by simp
    next
      assume "\<exists>sp. scatter_add image1 ?mask sp = Inr image2"
      then obtain sp where sp: "scatter_add image1 ?mask sp = Inr image2" ..
      note s2 = scatter_add_Inr [OF sp]
      from s2(1) have len: "length image2 = length image1" by (metis length_map)
      with y have y1: "y < length image1" by simp
      from s2(1) y1 len have "length (image2 ! y) = length (image1 ! y)" by (metis nth_map)
      with i have i1: "i < length (image1 ! y)" by simp
      from s2(3) [OF y1 i1 n] u1 [OF y1 i1 n] show ?thesis by simp
    qed
  qed
  from zip_grid_Inr [OF k] have sm: "map length image2 = map length ?mask"
    and mk: "masked = map2 (map2 (\<lambda>(r, g, b) k. (r * of_bool k, g * of_bool k, b * of_bool k)))
               image2 ?mask" by auto
  have lr: "map length (rev rast) = map length image2"
    using sm by (simp add: comp_def)
  have u3: "\<forall>y i. y < length image2 \<longrightarrow> i < length (image2 ! y) \<longrightarrow>
               \<not> coverage (rev rast ! y ! i) \<longrightarrow> image2 ! y ! i = (0, 0, 0)"
  proof (intro allI impI)
    fix y i assume y: "y < length image2" and i: "i < length (image2 ! y)"
      and n: "\<not> coverage (rev rast ! y ! i)"
    from lr have len: "length (rev rast) = length image2" by (metis length_map)
    with lr y have "length (rev rast ! y) = length (image2 ! y)" by (metis nth_map)
    with y i len n have "\<not> ?mask ! y ! i" by simp
    with u2 y i show "image2 ! y ! i = (0, 0, 0)" by blast
  qed
  have im: "map (map (\<lambda>(r, g, b).
                    (to_uint8 (clamp01 r * 255), to_uint8 (clamp01 g * 255),
                     to_uint8 (clamp01 b * 255)))) masked =
            map2 (map2 finish_px) image2 ?mask"
    unfolding mk map_map2_grid
    by (simp add: finish_px_def case_prod_unfold)
  show ?thesis
    unfolding render_post_def
    using r h w l2 lr u3 im by (intro exI [of _ vc] exI [of _ rast] exI [of _ image2]) simp
qed

lemma base_render_post: "post (\<lambda>c. base_render X g m c h w) (render_post X m h w)"
  unfolding base_render_def Let_def
  apply (rule post_bind_if post_bind_assoc post_bind_returnC post_bind_liftE post_bind_any post_case_prod)+
   apply (rule post_returnC, blast intro: finish_render)
  apply (rule post_bind_returnC post_bind_liftE)+
  apply (rule post_returnC, blast intro: finish_render)
  done

lemma postD: "post m Q \<Longrightarrow> m c = (Inr r, c') \<Longrightarrow> Q r"
  by (auto simp: post_def)

lemma base_render_render_post:
  "base_render X g m cam h w = (Inr r, cam') \<Longrightarrow> render_post X m h w r"
  using base_render_post [of X g m h w] by (rule postD)

subsection \<open>The small session, evaluated\<close>

lemmas eval_defs = base_render_def example_ext_def example_globals_def example_mesh_def
  bindC_def liftE_def returnC_def readC_def bindE_def zeros_def zip_grid_def same_shape_def
  gather_def scatter_def scatter_add_def broadcast_rows_def index_def to_long_def to_int32_def
  fmod1_def arange3_def stack3_def generate_pinhole_rays_dir_def arange_def meshgrid_ij_def
  reshape_hw_def normalize_def add3_def getitem_nat_def clamp01_def to_uint8_def coverage_def
  Let_def


lemma example_render:
  "render example_ext example_globals example_camera =
     (Inr \<lparr>img = [[(255, 191, 0), (0, 0, 0)], [(0, 0, 0), (255, 191, 0)]],
           face_idx = [[0, - 1], [- 1, 0]]\<rparr>, example_camera)"
  by (simp add: render_def example_camera_def eval_defs upt_rec [of _ "numeral _"]
      upt_rec [of _ 1] eval_nat_numeral)

lemma example_camera_readonly: "camera_readonly example_ext"
  by (simp add: camera_readonly_def cam_preserved_def example_ext_def returnC_def)

subsection \<open>Full and low resolution\<close>

lemma int_truediv_4: "int_truediv n 4 = (if 0 \<le> n then n div 4 else - ((- n) div 4))"
proof (cases "0 \<le> n")
  case True
  then have "to_long (real_of_int n / 4) = \<lfloor>real_of_int n / 4\<rfloor>"
    by (simp add: to_long_def)
  also have "\<dots> = n div 4"
    using floor_divide_of_int_eq [of n 4, where ?'a = real] by simp
  finally show ?thesis using True by (simp add: int_truediv_def)
next
  case False
  then have neg: "real_of_int n / 4 < 0" by simp
  then have "to_long (real_of_int n / 4) = \<lceil>real_of_int n / 4\<rceil>"
    by (simp add: to_long_def)
  also have "\<dots> = - \<lfloor>real_of_int (- n) / 4\<rfloor>"
    by (simp add: ceiling_def)
  also have "\<lfloor>real_of_int (- n) / 4\<rfloor> = (- n) div 4"
    using floor_divide_of_int_eq [of "- n" 4, where ?'a = real] by simp
  finally show ?thesis using False by (simp add: int_truediv_def)
qed

lemma int_truediv_1: "int_truediv n 1 = n"
  by (simp add: int_truediv_def to_long_def)

text \<open>
  C3: for every camera, \<^verbatim>\<open>render\<close> and \<^verbatim>\<open>lowres_render\<close> are the same
  \<^verbatim>\<open>base_render\<close>, on the same mesh and camera, the first with the camera's height and
  width unchanged, the second with each of them divided by 4 and truncated to an
  integer, which for the nonnegative dimensions of a camera is the integer quotient.
  Both are the one render operation with a resolution scale, at scale 1 and at scale 4.
\<close>

theorem lowres_render_same_base_render:
  "render X g cam = base_render X g (mesh g) cam (height cam) (width cam)
   \<and> lowres_render X g cam =
       base_render X g (mesh g) cam (int_truediv (height cam) 4) (int_truediv (width cam) 4)
   \<and> int_truediv (height cam) 4 =
       (if 0 \<le> height cam then height cam div 4 else - ((- height cam) div 4))
   \<and> int_truediv (width cam) 4 =
       (if 0 \<le> width cam then width cam div 4 else - ((- width cam) div 4))
   \<and> render X g cam = render_at_scale X 1 g cam
   \<and> lowres_render X g cam = render_at_scale X 4 g cam"
  by (simp add: render_def lowres_render_def render_at_scale_def int_truediv_4 int_truediv_1)

subsection \<open>The shape of the render result\<close>

lemma render_post_has_shape:
  assumes "render_post X m h w r"
  shows "has_shape r h w"
proof -
  from assms obtain vc rast image where
    h: "0 \<le> h" and w: "0 \<le> w"
    and li: "map length image = replicate (nat h) (nat w)"
    and lr: "map length (rev rast) = map length image"
    and im: "img r = map2 (map2 finish_px) image (map (map coverage) (rev rast))"
    and fi: "face_idx r = map (map (\<lambda>(u, v, zw, tri). to_long tri - 1)) (rev rast)"
    unfolding render_post_def by blast
  have "map length image = map length (map (map coverage) (rev rast))"
    using lr by (simp add: comp_def)
  then have "map length (img r) = map length image"
    unfolding im by (rule map_length_map2_grid)
  moreover have "map length (face_idx r) = map length (rev rast)"
    unfolding fi by (simp add: comp_def)
  ultimately show ?thesis
    using h w li lr by (simp add: has_shape_def)
qed

text \<open>
  C4: \<^verbatim>\<open>base_render\<close>, with the mesh fixed, is a function of the camera, the height and
  the width, and what it returns is a record of an image buffer and a face-index
  buffer. Whenever it returns, the requested height and width are nonnegative and both
  buffers have exactly that many rows and columns; for \<^verbatim>\<open>render\<close> these are the camera's
  height and width, for \<^verbatim>\<open>lowres_render\<close> a quarter of them.
\<close>

theorem base_render_image_shape:
  "(base_render X g m cam h w = (Inr r, cam') \<longrightarrow> has_shape r h w)
   \<and> (render X g cam = (Inr r, cam') \<longrightarrow> has_shape r (height cam) (width cam))
   \<and> (lowres_render X g cam = (Inr r, cam') \<longrightarrow>
        has_shape r (int_truediv (height cam) 4) (int_truediv (width cam) 4))"
  by (auto simp: render_def lowres_render_def
      dest!: base_render_render_post render_post_has_shape)

text \<open>C4 in the small session: the render of the two by two camera has two rows of two
  pixels in both buffers.\<close>

theorem base_render_image_shape_witness:
  "fst (render example_ext example_globals example_camera) =
     Inr \<lparr>img = [[(255, 191, 0), (0, 0, 0)], [(0, 0, 0), (255, 191, 0)]],
          face_idx = [[0, - 1], [- 1, 0]]\<rparr>
   \<and> has_shape \<lparr>img = [[(255, 191, 0), (0, 0, 0)], [(0, 0, 0), (255, 191, 0)]],
                 face_idx = [[0, - 1], [- 1, 0]]\<rparr> 2 2"
proof -
  let ?r = "\<lparr>img = [[(255, 191, 0), (0, 0, 0)], [(0, 0, 0), (255, 191, 0)]],
             face_idx = [[0, - 1], [- 1, 0]]\<rparr>"
  have e: "render example_ext example_globals example_camera = (Inr ?r, example_camera)"
    by (rule example_render)
  from base_render_image_shape [of example_ext example_globals example_mesh example_camera
      1 2 ?r example_camera] e
  have "has_shape ?r (height example_camera) (width example_camera)"
    by blast
  then have "has_shape ?r 2 2"
    by (simp add: example_camera_def)
  with e show ?thesis
    by simp
qed

subsection \<open>The camera during a render\<close>

lemma preserved_bindC:
  "cam_preserved m \<Longrightarrow> (\<And>x. cam_preserved (f x)) \<Longrightarrow> cam_preserved (bindC m f)"
  by (auto simp: cam_preserved_def bindC_def split: prod.splits sum.splits) (metis snd_conv)+

lemma preserved_liftE: "cam_preserved (liftE e)"
  by (simp add: cam_preserved_def liftE_def)

lemma preserved_returnC: "cam_preserved (returnC x)"
  by (simp add: cam_preserved_def returnC_def)

lemma preserved_readC: "cam_preserved (readC f)"
  by (simp add: cam_preserved_def readC_def)

lemma preserved_if:
  "(b \<Longrightarrow> cam_preserved m1) \<Longrightarrow> (\<not> b \<Longrightarrow> cam_preserved m2) \<Longrightarrow>
   cam_preserved (if b then m1 else m2)"
  by simp

lemma preserved_case_prod: "(\<And>a b. cam_preserved (f a b)) \<Longrightarrow> cam_preserved (case_prod f x)"
  by (cases x) simp

lemma generate_pinhole_rays_dir_preserved:
  assumes "camera_readonly X"
  shows "cam_preserved (\<lambda>c. generate_pinhole_rays_dir X c h w)"
  using assms unfolding generate_pinhole_rays_dir_def Let_def camera_readonly_def
  by (auto intro!: preserved_bindC preserved_liftE preserved_readC preserved_case_prod
      simp: case_prod_unfold)

lemma base_render_preserved:
  assumes "camera_readonly X"
  shows "cam_preserved (\<lambda>c. base_render X g m c h w)"
  unfolding base_render_def Let_def
  apply (intro preserved_bindC preserved_liftE preserved_returnC preserved_case_prod preserved_if
      generate_pinhole_rays_dir_preserved assms)
  using assms apply (simp_all add: camera_readonly_def)
  done

text \<open>The camera a render returns is the one the library left: with a camera method that
  writes to the camera, the camera after \<^verbatim>\<open>base_render\<close> is the changed one.\<close>

lemma mutating_ext_changes_camera:
  "snd (base_render mutating_ext example_globals example_mesh example_camera 1 2) =
     example_camera\<lparr>x0 := 1\<rparr>"
  by (simp add: mutating_ext_def example_camera_def eval_defs upt_rec [of _ "numeral _"]
      upt_rec [of _ 1] eval_nat_numeral)

text \<open>
  C7: \<^verbatim>\<open>base_render\<close>, \<^verbatim>\<open>render\<close>, \<^verbatim>\<open>lowres_render\<close> and \<^verbatim>\<open>generate_pinhole_rays_dir\<close>
  touch the camera only through the attributes \<^verbatim>\<open>height\<close>, \<^verbatim>\<open>width\<close>, \<^verbatim>\<open>x0\<close>, \<^verbatim>\<open>y0\<close>,
  which they read, and through the methods \<^verbatim>\<open>extrinsics.transform\<close>,
  \<^verbatim>\<open>projection_matrix\<close>, \<^verbatim>\<open>tan_half_fov\<close> and \<^verbatim>\<open>extrinsics.inv_transform_rays\<close>. With
  a library in which these four methods leave the camera as it is, every render, at every
  height and width, whether it returns or raises, leaves the camera unchanged. The writes
  of the notebook's own code go to tensors it created or got back from the library
  (\<^verbatim>\<open>ray_dir\<close>, \<^verbatim>\<open>im_material_idx\<close>, \<^verbatim>\<open>_texcoords\<close>, \<^verbatim>\<open>albedo\<close>, \<^verbatim>\<open>spec_albedo\<close>,
  \<^verbatim>\<open>img\<close>), never to an attribute of the camera.
\<close>

theorem render_leaves_camera_unchanged:
  assumes "camera_readonly X"
  shows "snd (base_render X g m cam h w) = cam
         \<and> snd (render X g cam) = cam
         \<and> snd (lowres_render X g cam) = cam
         \<and> snd (generate_pinhole_rays_dir X cam h w) = cam"
  using base_render_preserved [OF assms] generate_pinhole_rays_dir_preserved [OF assms]
  by (simp add: cam_preserved_def render_def lowres_render_def)

text \<open>C7 in the small session: the camera methods of its library only read, and the
  camera after a render, full or low resolution, is the camera before.\<close>

theorem render_leaves_camera_unchanged_witness:
  "camera_readonly example_ext
   \<and> snd (render example_ext example_globals example_camera) = example_camera
   \<and> snd (lowres_render example_ext example_globals example_camera) = example_camera"
  using render_leaves_camera_unchanged [OF example_camera_readonly,
      of example_globals example_mesh example_camera 1 2]
  by (simp add: example_camera_readonly)

subsection \<open>Uncovered pixels and the byte range\<close>








end
